theory Spec2Isabelle
  imports Main
begin

section \<open>The interactive-session bridge of the extension host\<close>

text \<open>
  A shallow embedding of \<^verbatim>\<open>src/vs/workbench/api/common/extHostInteractiveSession.ts\<close>:
  the provider registry, the session store and the boundary operations that the main
  thread calls on the extension host.

  Conventions of the embedding.
  \<^item> A promise that rejects, or a call that throws, is the value \<open>Inl err\<close>; a value that
    is returned is \<open>Inr v\<close>. A result that may be \<^verbatim>\<open>undefined\<close> (or \<^verbatim>\<open>null\<close>) is an
    \<open>option\<close>, \<open>None\<close> standing for both.
  \<^item> A thrown value is any JavaScript value: the type \<open>thrown\<close> below.
  \<^item> Values typed \<^verbatim>\<open>any\<close> (initial state, saved state, request context) are the type
    parameter \<open>'st\<close>.
  \<^item> The two static counters and the two maps are fields of one state record, for the
    one instance of the class that the extension host creates; every operation takes
    the state and returns the new one. An operation is one step: what a provider does
    while the operation awaits it is given by the provider's capability, a function of
    its arguments. The counter and the store are only touched after the last
    \<^verbatim>\<open>await\<close> of the preparation, so the step is the moment it completes.
  \<^item> Every call the bridge makes on a collaborator (the main-thread proxy, the log
    service, a capability of a provider or of a session) is appended to the field
    \<open>trace\<close> of the state, in the order of the calls.
  \<^item> Numbers are natural numbers: the counters only count up from zero, and the
    unbounded range is the spec's assumption.
\<close>

subsection \<open>Errors and values of the extension API\<close>

text \<open>
  What a provider or a session may throw, or reject with, seen through the one thing the
  bridge does with it, reading its property \<^verbatim>\<open>message\<close>: an \<^verbatim>\<open>Error\<close> object (or any
  other object) whose message is a string; a value other than \<^verbatim>\<open>null\<close> and
  \<^verbatim>\<open>undefined\<close> whose property \<^verbatim>\<open>message\<close> is undefined, such as a thrown string;
  \<^verbatim>\<open>null\<close>; \<^verbatim>\<open>undefined\<close>.
\<close>

datatype thrown = Error string | NoMessage | ThrownNull | ThrownUndefined

text \<open>
  The expression \<^verbatim>\<open>err.message\<close>. Reading a property of \<^verbatim>\<open>null\<close> or of
  \<^verbatim>\<open>undefined\<close> throws a \<^verbatim>\<open>TypeError\<close>, an \<^verbatim>\<open>Error\<close> object of the engine; the text
  of its message is the engine's and no statement depends on it.
\<close>

definition typeError :: "string \<Rightarrow> thrown" where
  "typeError v = Error (''Cannot read properties of '' @ v @ '' (reading 'message')'')"

fun message_of :: "thrown \<Rightarrow> thrown + string option" where
  "message_of (Error m) = Inr (Some m)"
| "message_of NoMessage = Inr None"
| "message_of ThrownNull = Inl (typeError ''null'')"
| "message_of ThrownUndefined = Inl (typeError ''undefined'')"

type_synonym CancellationToken = bool

record InteractiveSessionParticipantInformation =
  name :: string
  icon :: "string option"

record 'st InteractiveSession =
  requester :: "InteractiveSessionParticipantInformation option"
  responder :: "InteractiveSessionParticipantInformation option"
  saveState :: "(unit \<Rightarrow> thrown + 'st) option"

record IInteractiveRequestDto =
  message :: string

text \<open>\<^verbatim>\<open>vscode.InteractiveRequest\<close>: the session and the message.\<close>

record 'st InteractiveRequest = IInteractiveRequestDto +
  session :: "'st InteractiveSession"

record InteractiveProgress =
  content :: string

text \<open>\<^verbatim>\<open>vscode.InteractiveResponse\<close>, the result of the synchronous capability.\<close>

record InteractiveResponse = InteractiveProgress +
  followups :: "string list option"

record InteractiveResponseErrorDetails =
  message :: string
  responseIsIncomplete :: "bool option"

record 'st InteractiveResponseCommand =
  commandId :: string
  args :: "'st list option"
  title :: string

text \<open>\<^verbatim>\<open>vscode.InteractiveResponseForProgress\<close>, the result of the progressive capability.\<close>

record 'st InteractiveResponseForProgress =
  followups :: "string list option"
  commands :: "'st InteractiveResponseCommand list option"
  errorDetails :: "InteractiveResponseErrorDetails option"

text \<open>
  What a call of \<^verbatim>\<open>provideResponseWithProgress\<close> does: the increments it passes to
  \<^verbatim>\<open>progress.report\<close>, in order, and then how its promise settles.
\<close>

record 'st ProgressRun =
  reported :: "InteractiveProgress list"
  settled :: "thrown + 'st InteractiveResponseForProgress option"

text \<open>
  \<^verbatim>\<open>vscode.InteractiveSessionSlashCommand\<close> and \<^verbatim>\<open>IInteractiveSlashCommand\<close>: both
  kinds are numeric enums.
\<close>

record InteractiveSessionSlashCommand =
  command :: string
  kind :: int
  detail :: "string option"

record 'st InteractiveSessionProvider =
  prepareSession :: "'st \<Rightarrow> CancellationToken \<Rightarrow> thrown + 'st InteractiveSession option"
  resolveRequest :: "('st InteractiveSession \<Rightarrow> 'st \<Rightarrow> CancellationToken
      \<Rightarrow> thrown + 'st InteractiveRequest option) option"
  provideInitialSuggestions :: "(CancellationToken \<Rightarrow> thrown + string list option) option"
  provideResponse :: "('st InteractiveRequest \<Rightarrow> CancellationToken
      \<Rightarrow> thrown + InteractiveResponse option) option"
  provideResponseWithProgress :: "('st InteractiveRequest \<Rightarrow> CancellationToken
      \<Rightarrow> 'st ProgressRun) option"
  provideSlashCommands :: "('st InteractiveSession \<Rightarrow> CancellationToken
      \<Rightarrow> thrown + InteractiveSessionSlashCommand list option) option"

subsection \<open>Values sent to the main thread\<close>

record IInteractiveSessionDto =
  id :: nat
  requesterUsername :: "string option"
  requesterAvatarIconUri :: "string option"
  responderUsername :: "string option"
  responderAvatarIconUri :: "string option"

record Timings =
  firstProgress :: nat
  totalElapsed :: nat

record 'st IInteractiveResponseDto =
  followups :: "string list option"
  commandFollowups :: "'st InteractiveResponseCommand list option"
  errorDetails :: "InteractiveResponseErrorDetails option"
  timings :: Timings

subsection \<open>Collaborators\<close>

datatype capability =
    PrepareSession
  | ResolveRequest
  | ProvideInitialSuggestions
  | ProvideResponse
  | ProvideResponseWithProgress
  | ProvideSlashCommands

text \<open>
  The calls on collaborators: the five methods of the main-thread proxy, the two
  severities of the log service, the capabilities of a provider (by handle) and the
  state serialization of a session (by id).
\<close>

datatype 'st event =
    RegisterInteractiveSessionProvider nat string bool
  | UnregisterInteractiveSessionProvider nat
  | AddInteractiveSessionRequest 'st
  | AcceptInteractiveSessionState nat 'st
  | AcceptInteractiveResponseProgress nat nat string
  | LogError thrown
  | LogWarn thrown
  | Invoked nat capability
  | InvokedSaveState nat

text \<open>
  The stopwatch of \<^verbatim>\<open>vs/base/common/stopwatch\<close> is not among the sources. It is a
  parameter of the reply operation: \<open>stopWatch k\<close> is what the \<open>k\<close>-th call of
  \<^verbatim>\<open>elapsed()\<close> returns (counting from zero), in milliseconds since the stopwatch was
  created. \<^verbatim>\<open>StopWatch.create(false)\<close> asks for the low-resolution clock, whose
  readings are whole milliseconds; they are natural numbers here, so the clock is taken
  not to be set back before the start of the stopwatch.
\<close>

type_synonym StopWatch = "nat \<Rightarrow> nat"

text \<open>
  Modelled from the spec: \<^verbatim>\<open>localize\<close> of \<^verbatim>\<open>vs/nls\<close> is not among the sources. The spec
  says the message of a failed generation embeds the failure's message text; the
  placeholder \<^verbatim>\<open>{0}\<close> of the default message is replaced by the first argument. An
  argument is a string or \<^verbatim>\<open>undefined\<close> (\<open>None\<close>), which is written as JavaScript
  writes it, \<^verbatim>\<open>undefined\<close>.
\<close>

fun format0 :: "string \<Rightarrow> string \<Rightarrow> string" where
  "format0 [] a = []"
| "format0 (c # cs) a =
     (if c = CHR ''{'' \<and> take 2 cs = ''0}'' then a @ format0 (drop 2 cs) a
      else c # format0 cs a)"

definition localize :: "string \<Rightarrow> string \<Rightarrow> string option list \<Rightarrow> string" where
  "localize key msg as =
     (case as of
        [] \<Rightarrow> msg
      | a # _ \<Rightarrow> format0 msg (case a of Some t \<Rightarrow> t | None \<Rightarrow> ''undefined''))"

text \<open>
  Modelled from the spec: \<^verbatim>\<open>withNullAsUndefined\<close> of \<^verbatim>\<open>vs/base/common/types\<close> is not
  among the sources. It normalizes null to absent; \<open>None\<close> stands for both.
\<close>

definition withNullAsUndefined :: "'a option \<Rightarrow> 'a option" where
  "withNullAsUndefined x = x"

subsection \<open>The state\<close>

record 'st InteractiveSessionProviderWrapper =
  handle :: nat
  extension :: string
  provider :: "'st InteractiveSessionProvider"

text \<open>
  \<open>pool\<close> is \<^verbatim>\<open>InteractiveSessionProviderWrapper._pool\<close> and \<open>nextId\<close> is
  \<^verbatim>\<open>ExtHostInteractiveSession._nextId\<close>.
\<close>

record 'st ExtHostInteractiveSession =
  pool :: nat
  nextId :: nat
  interactiveSessionProvider :: "nat \<rightharpoonup> 'st InteractiveSessionProviderWrapper"
  interactiveSessions :: "nat \<rightharpoonup> 'st InteractiveSession"
  trace :: "'st event list"

definition init :: "'st ExtHostInteractiveSession" where
  "init = \<lparr>pool = 0, nextId = 0, interactiveSessionProvider = Map.empty,
     interactiveSessions = Map.empty, trace = []\<rparr>"

definition emit :: "'st event \<Rightarrow> 'st ExtHostInteractiveSession \<Rightarrow> 'st ExtHostInteractiveSession" where
  "emit e s = s\<lparr>trace := trace s @ [e]\<rparr>"

subsection \<open>Registration\<close>

text \<open>
  \<^verbatim>\<open>registerInteractiveSessionProvider\<close> returns a disposable; the model returns the
  handle of the new wrapper, and \<open>dispose\<close> is the body of the disposable.
\<close>

definition registerInteractiveSessionProvider ::
  "string \<Rightarrow> string \<Rightarrow> 'st InteractiveSessionProvider \<Rightarrow> 'st ExtHostInteractiveSession
   \<Rightarrow> nat \<times> 'st ExtHostInteractiveSession" where
  "registerInteractiveSessionProvider ext ident p s =
     (let wrapper = \<lparr>handle = pool s, extension = ext, provider = p\<rparr>;
          s1 = s\<lparr>pool := pool s + 1\<rparr>;
          s2 = s1\<lparr>interactiveSessionProvider :=
                 (interactiveSessionProvider s1)(handle wrapper \<mapsto> wrapper)\<rparr>;
          s3 = emit (RegisterInteractiveSessionProvider (handle wrapper) ident
                 (provideResponseWithProgress p \<noteq> None)) s2
      in (handle wrapper, s3))"

definition dispose :: "nat \<Rightarrow> 'st ExtHostInteractiveSession \<Rightarrow> 'st ExtHostInteractiveSession" where
  "dispose h s =
     (let s1 = emit (UnregisterInteractiveSessionProvider h) s
      in s1\<lparr>interactiveSessionProvider := (interactiveSessionProvider s1)(h := None)\<rparr>)"

definition addInteractiveSessionRequest ::
  "'st \<Rightarrow> 'st ExtHostInteractiveSession \<Rightarrow> 'st ExtHostInteractiveSession" where
  "addInteractiveSessionRequest context s = emit (AddInteractiveSessionRequest context) s"

subsection \<open>Sessions\<close>

definition prepareInteractiveSession ::
  "nat \<Rightarrow> 'st \<Rightarrow> CancellationToken \<Rightarrow> 'st ExtHostInteractiveSession
   \<Rightarrow> (thrown + IInteractiveSessionDto option) \<times> 'st ExtHostInteractiveSession" where
  "prepareInteractiveSession h initialState token s =
     (case interactiveSessionProvider s h of
        None \<Rightarrow> (Inr None, s)
      | Some entry \<Rightarrow>
          (let s1 = emit (Invoked h PrepareSession) s in
           case prepareSession (provider entry) initialState token of
             Inl err \<Rightarrow> (Inl err, s1)
           | Inr None \<Rightarrow> (Inr None, s1)
           | Inr (Some sess) \<Rightarrow>
               (let ident = nextId s1;
                    s2 = s1\<lparr>nextId := nextId s1 + 1\<rparr>;
                    s3 = s2\<lparr>interactiveSessions := (interactiveSessions s2)(ident \<mapsto> sess)\<rparr>
                in (Inr (Some \<lparr>id = ident,
                      requesterUsername = map_option name (requester sess),
                      requesterAvatarIconUri = Option.bind (requester sess) icon,
                      responderUsername = map_option name (responder sess),
                      responderAvatarIconUri = Option.bind (responder sess) icon\<rparr>), s3))))"

definition releaseSession :: "nat \<Rightarrow> 'st ExtHostInteractiveSession \<Rightarrow> 'st ExtHostInteractiveSession" where
  "releaseSession sessionId s = s\<lparr>interactiveSessions := (interactiveSessions s)(sessionId := None)\<rparr>"

subsection \<open>Request resolution and initial suggestions\<close>

definition resolveInteractiveRequest ::
  "nat \<Rightarrow> nat \<Rightarrow> 'st \<Rightarrow> CancellationToken \<Rightarrow> 'st ExtHostInteractiveSession
   \<Rightarrow> (thrown + IInteractiveRequestDto option) \<times> 'st ExtHostInteractiveSession" where
  "resolveInteractiveRequest h sessionId context token s =
     (case interactiveSessionProvider s h of
        None \<Rightarrow> (Inr None, s)
      | Some entry \<Rightarrow>
          (case interactiveSessions s sessionId of
             None \<Rightarrow> (Inr None, s)
           | Some realSession \<Rightarrow>
               (case resolveRequest (provider entry) of
                  None \<Rightarrow> (Inr None, s)
                | Some f \<Rightarrow>
                    (let s1 = emit (Invoked h ResolveRequest) s in
                     case f realSession context token of
                       Inl err \<Rightarrow> (Inl err, s1)
                     | Inr (Some request) \<Rightarrow>
                         (Inr (Some \<lparr>IInteractiveRequestDto.message =
                            IInteractiveRequestDto.message request\<rparr>), s1)
                     | Inr None \<Rightarrow> (Inr None, s1)))))"

definition provideInitialSuggestions_op ::
  "nat \<Rightarrow> CancellationToken \<Rightarrow> 'st ExtHostInteractiveSession
   \<Rightarrow> (thrown + string list option) \<times> 'st ExtHostInteractiveSession" where
  "provideInitialSuggestions_op h token s =
     (case interactiveSessionProvider s h of
        None \<Rightarrow> (Inr None, s)
      | Some entry \<Rightarrow>
          (case provideInitialSuggestions (provider entry) of
             None \<Rightarrow> (Inr None, s)
           | Some f \<Rightarrow>
               (let s1 = emit (Invoked h ProvideInitialSuggestions) s in
                case f token of
                  Inl err \<Rightarrow> (Inl err, s1)
                | Inr r \<Rightarrow> (Inr (withNullAsUndefined r), s1))))"

subsection \<open>The reply\<close>

text \<open>
  The block \<^verbatim>\<open>if (realSession.saveState) { ... }\<close>, which both branches of the reply
  contain: the state serialization is called and its result sent to the main thread.
  \<open>Inl\<close> is the exception that leaves the block, with the state at that moment.
\<close>

definition saveSessionState ::
  "nat \<Rightarrow> 'st InteractiveSession \<Rightarrow> 'st ExtHostInteractiveSession
   \<Rightarrow> (thrown \<times> 'st ExtHostInteractiveSession) + 'st ExtHostInteractiveSession" where
  "saveSessionState sessionId realSession s =
     (case saveState realSession of
        None \<Rightarrow> Inr s
      | Some save \<Rightarrow>
          (let s1 = emit (InvokedSaveState sessionId) s in
           case save () of
             Inl err \<Rightarrow> Inl (err, s1)
           | Inr newState \<Rightarrow> Inr (emit (AcceptInteractiveSessionState sessionId newState) s1)))"

text \<open>
  The closure \<^verbatim>\<open>progressObj.report\<close>. Its state is the variable \<^verbatim>\<open>firstProgress\<close>, the
  number of readings taken from the stopwatch so far, and the state of the bridge.
\<close>

definition report ::
  "nat \<Rightarrow> nat \<Rightarrow> StopWatch \<Rightarrow> InteractiveProgress
   \<Rightarrow> nat option \<times> nat \<times> 'st ExtHostInteractiveSession
   \<Rightarrow> nat option \<times> nat \<times> 'st ExtHostInteractiveSession" where
  "report h sessionId stopWatch progress st =
     (case st of (first, reads, s) \<Rightarrow>
        (let (first1, reads1) =
               (case first of None \<Rightarrow> (Some (stopWatch reads), Suc reads)
                | Some _ \<Rightarrow> (first, reads))
         in (first1, reads1,
             emit (AcceptInteractiveResponseProgress h sessionId (content progress)) s)))"

text \<open>
  The \<^verbatim>\<open>try\<close>/\<^verbatim>\<open>catch\<close> around the call of \<^verbatim>\<open>provideResponseWithProgress\<close>: the
  provider's result, or the result made up for a generation that gave nothing or failed.
  The \<^verbatim>\<open>catch\<close> reads \<^verbatim>\<open>err.message\<close> first; when that throws, the exception leaves
  the \<^verbatim>\<open>catch\<close> (\<open>Inl\<close>) before anything is logged. Otherwise the failure is logged as
  an error.
\<close>

definition resultOrError ::
  "'st ProgressRun \<Rightarrow> 'st ExtHostInteractiveSession
   \<Rightarrow> (thrown + 'st InteractiveResponseForProgress) \<times> 'st ExtHostInteractiveSession" where
  "resultOrError run s =
     (case settled run of
        Inr (Some r) \<Rightarrow> (Inr r, s)
      | Inr None \<Rightarrow>
          (Inr \<lparr>InteractiveResponseForProgress.followups = None,
            commands = None,
            InteractiveResponseForProgress.errorDetails = Some
              \<lparr>InteractiveResponseErrorDetails.message =
                 localize ''emptyResponse'' ''Provider returned null response'' [],
               responseIsIncomplete = None\<rparr>\<rparr>, s)
      | Inl err \<Rightarrow>
          (case message_of err of
             Inl thrownInCatch \<Rightarrow> (Inl thrownInCatch, s)
           | Inr m \<Rightarrow>
               (Inr \<lparr>InteractiveResponseForProgress.followups = None,
                 commands = None,
                 InteractiveResponseForProgress.errorDetails = Some
                   \<lparr>InteractiveResponseErrorDetails.message =
                      localize ''errorResponse'' ''Error from provider: {0}'' [m],
                    responseIsIncomplete = Some True\<rparr>\<rparr>,
                emit (LogError err) s)))"

definition provideInteractiveReply ::
  "nat \<Rightarrow> nat \<Rightarrow> IInteractiveRequestDto \<Rightarrow> CancellationToken \<Rightarrow> StopWatch
   \<Rightarrow> 'st ExtHostInteractiveSession
   \<Rightarrow> (thrown + 'st IInteractiveResponseDto option) \<times> 'st ExtHostInteractiveSession" where
  "provideInteractiveReply h sessionId request token stopWatch s =
     (case interactiveSessionProvider s h of
        None \<Rightarrow> (Inr None, s)
      | Some entry \<Rightarrow>
          (case interactiveSessions s sessionId of
             None \<Rightarrow> (Inr None, s)
           | Some realSession \<Rightarrow>
               (let requestObj = \<lparr>IInteractiveRequestDto.message =
                      IInteractiveRequestDto.message request, session = realSession\<rparr> in
                case provideResponse (provider entry) of
                  Some f \<Rightarrow>
                    (let s1 = emit (Invoked h ProvideResponse) s in
                     case f requestObj token of
                       Inl err \<Rightarrow> (Inl err, s1)
                     | Inr res \<Rightarrow>
                         (case saveSessionState sessionId realSession s1 of
                            Inl (err, s2) \<Rightarrow> (Inl err, s2)
                          | Inr s2 \<Rightarrow>
                              (case res of
                                 None \<Rightarrow> (Inr None, s2)
                               | Some r \<Rightarrow>
                                   (let s3 = emit (AcceptInteractiveResponseProgress h sessionId
                                          (content r)) s2
                                    in (Inr (Some \<lparr>IInteractiveResponseDto.followups =
                                            InteractiveResponse.followups r,
                                          commandFollowups = None,
                                          IInteractiveResponseDto.errorDetails = None,
                                          timings = \<lparr>firstProgress = 0, totalElapsed = 0\<rparr>\<rparr>),
                                        s3)))))
                | None \<Rightarrow>
                    (case provideResponseWithProgress (provider entry) of
                       Some g \<Rightarrow>
                         (let s1 = emit (Invoked h ProvideResponseWithProgress) s;
                              run = g requestObj token;
                              (first, reads, s2) =
                                 fold (report h sessionId stopWatch) (reported run) (None, 0, s1)
                          in case resultOrError run s2 of
                               (Inl err, s3) \<Rightarrow> (Inl err, s3)
                             | (Inr result, s3) \<Rightarrow>
                                 (let s4 = (case saveSessionState sessionId realSession s3 of
                                              Inl (err, s') \<Rightarrow> emit (LogWarn err) s'
                                            | Inr s' \<Rightarrow> s');
                                      timings = \<lparr>firstProgress =
                                                   (case first of None \<Rightarrow> 0 | Some t \<Rightarrow> t),
                                                 totalElapsed = stopWatch reads\<rparr>
                                  in (Inr (Some \<lparr>IInteractiveResponseDto.followups =
                                          InteractiveResponseForProgress.followups result,
                                        commandFollowups = commands result,
                                        IInteractiveResponseDto.errorDetails =
                                          InteractiveResponseForProgress.errorDetails result,
                                        timings = timings\<rparr>), s4)))
                     | None \<Rightarrow>
                         (Inl (Error
                            ''Provider must implement either provideResponse or provideResponseWithProgress''),
                          s)))))"

subsection \<open>Slash commands\<close>

text \<open>
  \<^verbatim>\<open>typeConvert.CompletionItemKind.from\<close> is not among the sources: the conversion of
  kinds is the parameter \<open>kindFrom\<close>.
\<close>

definition convertSlashCommand ::
  "(int \<Rightarrow> int) \<Rightarrow> InteractiveSessionSlashCommand \<Rightarrow> InteractiveSessionSlashCommand" where
  "convertSlashCommand kindFrom c = c\<lparr>kind := kindFrom (kind c)\<rparr>"

definition provideSlashCommands_op ::
  "(int \<Rightarrow> int) \<Rightarrow> nat \<Rightarrow> nat \<Rightarrow> CancellationToken \<Rightarrow> 'st ExtHostInteractiveSession
   \<Rightarrow> (thrown + InteractiveSessionSlashCommand list option) \<times> 'st ExtHostInteractiveSession" where
  "provideSlashCommands_op kindFrom h sessionId token s =
     (case interactiveSessionProvider s h of
        None \<Rightarrow> (Inr None, s)
      | Some entry \<Rightarrow>
          (case interactiveSessions s sessionId of
             None \<Rightarrow> (Inr None, s)
           | Some realSession \<Rightarrow>
               (case provideSlashCommands (provider entry) of
                  None \<Rightarrow> (Inr None, s)
                | Some f \<Rightarrow>
                    (let s1 = emit (Invoked h ProvideSlashCommands) s in
                     case f realSession token of
                       Inl err \<Rightarrow> (Inl err, s1)
                     | Inr slashCommands \<Rightarrow>
                         (Inr (map_option (map (convertSlashCommand kindFrom)) slashCommands),
                          s1)))))"

subsection \<open>Sequences of operations\<close>

text \<open>
  The operations of the class, as values, so that a history of the bridge is a list.
  \<open>perform\<close> runs one operation and says which identity it issued, if any: the handle
  of a registration, or the session id of a preparation that produced a descriptor.
\<close>

datatype 'st call =
    Register string string "'st InteractiveSessionProvider"
  | Dispose nat
  | AddRequest 'st
  | Prepare nat 'st CancellationToken
  | ResolveReq nat nat 'st CancellationToken
  | InitialSuggestions nat CancellationToken
  | Reply nat nat IInteractiveRequestDto CancellationToken StopWatch
  | SlashCommands nat nat CancellationToken
  | Release nat

datatype issued = IssuedHandle nat | IssuedSessionId nat

fun perform ::
  "(int \<Rightarrow> int) \<Rightarrow> 'st call \<Rightarrow> 'st ExtHostInteractiveSession
   \<Rightarrow> issued option \<times> 'st ExtHostInteractiveSession" where
  "perform k (Register ext ident p) s =
     (case registerInteractiveSessionProvider ext ident p s of
        (h, s') \<Rightarrow> (Some (IssuedHandle h), s'))"
| "perform k (Dispose h) s = (None, dispose h s)"
| "perform k (AddRequest c) s = (None, addInteractiveSessionRequest c s)"
| "perform k (Prepare h i t) s =
     (case prepareInteractiveSession h i t s of
        (Inr (Some dto), s') \<Rightarrow> (Some (IssuedSessionId (IInteractiveSessionDto.id dto)), s')
      | (_, s') \<Rightarrow> (None, s'))"
| "perform k (ResolveReq h n c t) s = (None, snd (resolveInteractiveRequest h n c t s))"
| "perform k (InitialSuggestions h t) s = (None, snd (provideInitialSuggestions_op h t s))"
| "perform k (Reply h n r t w) s = (None, snd (provideInteractiveReply h n r t w s))"
| "perform k (SlashCommands h n t) s = (None, snd (provideSlashCommands_op k h n t s))"
| "perform k (Release n) s = (None, releaseSession n s)"

fun performAll ::
  "(int \<Rightarrow> int) \<Rightarrow> 'st call list \<Rightarrow> 'st ExtHostInteractiveSession
   \<Rightarrow> issued list \<times> 'st ExtHostInteractiveSession" where
  "performAll k [] s = ([], s)"
| "performAll k (c # cs) s =
     (case perform k c s of
        (i, s1) \<Rightarrow>
          (case performAll k cs s1 of
             (is, s2) \<Rightarrow> ((case i of None \<Rightarrow> is | Some x \<Rightarrow> x # is), s2)))"

fun handlesOf :: "issued list \<Rightarrow> nat list" where
  "handlesOf [] = []"
| "handlesOf (IssuedHandle h # is) = h # handlesOf is"
| "handlesOf (IssuedSessionId n # is) = handlesOf is"

fun sessionIdsOf :: "issued list \<Rightarrow> nat list" where
  "sessionIdsOf [] = []"
| "sessionIdsOf (IssuedHandle h # is) = sessionIdsOf is"
| "sessionIdsOf (IssuedSessionId n # is) = n # sessionIdsOf is"

subsection \<open>Notions used in the statements\<close>

text \<open>
  The events an operation added to the trace: those of \<open>s'\<close> after the ones \<open>s\<close>
  already had.
\<close>

definition emitted ::
  "'st ExtHostInteractiveSession \<Rightarrow> 'st ExtHostInteractiveSession \<Rightarrow> 'st event list" where
  "emitted s s' = drop (length (trace s)) (trace s')"

text \<open>
  The state with more events on its trace; whether the state serialization of a session
  fails; the events of the block that serializes the state; the events of the progress
  increments.
\<close>

definition appendTrace ::
  "'st event list \<Rightarrow> 'st ExtHostInteractiveSession \<Rightarrow> 'st ExtHostInteractiveSession" where
  "appendTrace evs s = s\<lparr>trace := trace s @ evs\<rparr>"

definition saveError :: "'st InteractiveSession \<Rightarrow> thrown option" where
  "saveError sess =
     (case saveState sess of None \<Rightarrow> None
      | Some save \<Rightarrow> (case save () of Inl err \<Rightarrow> Some err | Inr _ \<Rightarrow> None))"

definition saveEvents :: "nat \<Rightarrow> 'st InteractiveSession \<Rightarrow> 'st event list" where
  "saveEvents n sess =
     (case saveState sess of None \<Rightarrow> []
      | Some save \<Rightarrow> InvokedSaveState n #
          (case save () of Inl err \<Rightarrow> [] | Inr st \<Rightarrow> [AcceptInteractiveSessionState n st]))"

definition progressEvents :: "nat \<Rightarrow> nat \<Rightarrow> InteractiveProgress list \<Rightarrow> 'st event list" where
  "progressEvents h n ps = map (\<lambda>p. AcceptInteractiveResponseProgress h n (content p)) ps"

text \<open>
  The exception that leaves the \<^verbatim>\<open>catch\<close> of a failed generation, if any: the one
  thrown by reading the message of what the provider threw.
\<close>

definition thrownInCatch :: "'st ProgressRun \<Rightarrow> thrown option" where
  "thrownInCatch gen =
     (case settled gen of
        Inl err \<Rightarrow> (case message_of err of Inl e \<Rightarrow> Some e | Inr _ \<Rightarrow> None)
      | Inr _ \<Rightarrow> None)"

text \<open>The events that forward a progress increment to the main thread.\<close>

fun isProgress :: "'st event \<Rightarrow> bool" where
  "isProgress (AcceptInteractiveResponseProgress h n c) = True"
| "isProgress _ = False"

text \<open>
  What one operation may do to the counters and the key sets of the two maps, given the
  identity it issued: an issued handle is the old value of \<open>pool\<close>, an issued session
  id the old value of \<open>nextId\<close>, the counter concerned goes up by one, and no other key
  appears.
\<close>

definition issuedBy :: "issued option \<Rightarrow> 'st ExtHostInteractiveSession \<Rightarrow> 'st ExtHostInteractiveSession \<Rightarrow> bool" where
  "issuedBy i s s' =
     (case i of
        None \<Rightarrow> pool s' = pool s \<and> nextId s' = nextId s
          \<and> dom (interactiveSessionProvider s') \<subseteq> dom (interactiveSessionProvider s)
          \<and> dom (interactiveSessions s') \<subseteq> dom (interactiveSessions s)
      | Some (IssuedHandle x) \<Rightarrow> x = pool s \<and> pool s' = Suc (pool s) \<and> nextId s' = nextId s
          \<and> dom (interactiveSessionProvider s') \<subseteq> insert x (dom (interactiveSessionProvider s))
          \<and> dom (interactiveSessions s') \<subseteq> dom (interactiveSessions s)
      | Some (IssuedSessionId x) \<Rightarrow> x = nextId s \<and> nextId s' = Suc (nextId s) \<and> pool s' = pool s
          \<and> dom (interactiveSessionProvider s') \<subseteq> dom (interactiveSessionProvider s)
          \<and> dom (interactiveSessions s') \<subseteq> insert x (dom (interactiveSessions s)))"

subsection \<open>Concrete providers and sessions\<close>

text \<open>
  Inputs for the concrete instances below; opaque state is a natural number here.
  \<open>started p\<close> is the bridge after the provider \<open>p\<close> was registered (handle 0) and
  asked for a session (id 0, if it gave one).
\<close>

definition exSession :: "nat InteractiveSession" where
  "exSession = \<lparr>requester = Some \<lparr>name = ''user'', icon = None\<rparr>, responder = None,
     saveState = Some (\<lambda>_. Inr 7)\<rparr>"

definition exFailingSession :: "nat InteractiveSession" where
  "exFailingSession = \<lparr>requester = None, responder = None,
     saveState = Some (\<lambda>_. Inl (Error ''state is not serializable''))\<rparr>"

definition exSync :: "nat InteractiveRequest \<Rightarrow> CancellationToken \<Rightarrow> thrown + InteractiveResponse option" where
  "exSync req t = Inr (Some \<lparr>content = ''hello'', InteractiveResponse.followups = Some [''a'', ''b'']\<rparr>)"

definition exProgressive :: "nat InteractiveRequest \<Rightarrow> CancellationToken \<Rightarrow> nat ProgressRun" where
  "exProgressive req t =
     \<lparr>reported = [\<lparr>content = ''hel''\<rparr>, \<lparr>content = ''lo''\<rparr>],
      settled = Inr (Some \<lparr>InteractiveResponseForProgress.followups = Some [''more''],
        commands = None, InteractiveResponseForProgress.errorDetails = None\<rparr>)\<rparr>"

definition exFailingProgressive :: "nat InteractiveRequest \<Rightarrow> CancellationToken \<Rightarrow> nat ProgressRun" where
  "exFailingProgressive req t = \<lparr>reported = [\<lparr>content = ''hel''\<rparr>], settled = Inl (Error ''boom'')\<rparr>"

definition exRejecting :: "nat InteractiveRequest \<Rightarrow> CancellationToken \<Rightarrow> nat ProgressRun" where
  "exRejecting req t = \<lparr>reported = [\<lparr>content = ''hel''\<rparr>], settled = Inl ThrownUndefined\<rparr>"

definition exSlash :: "nat InteractiveSession \<Rightarrow> CancellationToken
    \<Rightarrow> thrown + InteractiveSessionSlashCommand list option" where
  "exSlash sess t = Inr (Some [\<lparr>command = ''fix'', kind = 2, detail = Some ''Fix it''\<rparr>,
     \<lparr>command = ''explain'', kind = 17, detail = None\<rparr>])"

definition exProvider ::
  "(nat \<Rightarrow> CancellationToken \<Rightarrow> thrown + nat InteractiveSession option)
   \<Rightarrow> (nat InteractiveRequest \<Rightarrow> CancellationToken \<Rightarrow> thrown + InteractiveResponse option) option
   \<Rightarrow> (nat InteractiveRequest \<Rightarrow> CancellationToken \<Rightarrow> nat ProgressRun) option
   \<Rightarrow> nat InteractiveSessionProvider" where
  "exProvider prepare sync progressive =
     \<lparr>prepareSession = prepare, resolveRequest = None, provideInitialSuggestions = None,
      provideResponse = sync, provideResponseWithProgress = progressive,
      provideSlashCommands = Some exSlash\<rparr>"

definition gives :: "nat InteractiveSession \<Rightarrow> nat \<Rightarrow> CancellationToken
    \<Rightarrow> thrown + nat InteractiveSession option" where
  "gives sess i t = Inr (Some sess)"

definition givesNothing :: "nat \<Rightarrow> CancellationToken \<Rightarrow> thrown + nat InteractiveSession option" where
  "givesNothing i t = Inr None"

definition failsToPrepare :: "nat \<Rightarrow> CancellationToken \<Rightarrow> thrown + nat InteractiveSession option" where
  "failsToPrepare i t = Inl (Error ''no session today'')"

definition exBoth :: "nat InteractiveSessionProvider" where
  "exBoth = exProvider (gives exSession) (Some exSync) (Some exProgressive)"

definition exSyncFailingSave :: "nat InteractiveSessionProvider" where
  "exSyncFailingSave = exProvider (gives exFailingSession) (Some exSync) None"

definition exProgressiveOnly :: "nat InteractiveSessionProvider" where
  "exProgressiveOnly = exProvider (gives exSession) None (Some exProgressive)"

definition exProgressiveFailingSave :: "nat InteractiveSessionProvider" where
  "exProgressiveFailingSave = exProvider (gives exFailingSession) None (Some exProgressive)"

definition exProgressiveFailing :: "nat InteractiveSessionProvider" where
  "exProgressiveFailing = exProvider (gives exSession) None (Some exFailingProgressive)"

definition exProgressiveRejecting :: "nat InteractiveSessionProvider" where
  "exProgressiveRejecting = exProvider (gives exSession) None (Some exRejecting)"

definition exNeither :: "nat InteractiveSessionProvider" where
  "exNeither = exProvider (gives exSession) None None"

definition exRequest :: IInteractiveRequestDto where
  "exRequest = \<lparr>IInteractiveRequestDto.message = ''hi''\<rparr>"

text \<open>
  A stopwatch with the low-resolution clock: the first reading is taken in the
  millisecond in which the stopwatch was created, the next one five milliseconds later.
\<close>

definition exStopWatch :: StopWatch where
  "exStopWatch j = 5 * j"

definition exKindFrom :: "int \<Rightarrow> int" where
  "exKindFrom j = j - 1"

definition started :: "nat InteractiveSessionProvider \<Rightarrow> nat ExtHostInteractiveSession" where
  "started p = snd (prepareInteractiveSession 0 0 False
     (snd (registerInteractiveSessionProvider ''ext'' ''chat'' p init)))"

text \<open>The bridge after that provider was unregistered and its session released.\<close>

definition exGone :: "nat ExtHostInteractiveSession" where
  "exGone = releaseSession 0 (dispose 0 (started exBoth))"

text \<open>
  Three providers registered and no session yet: the first fails to prepare a session,
  the second prepares one, the third gives none.
\<close>

definition exThree :: "nat ExtHostInteractiveSession" where
  "exThree = snd (registerInteractiveSessionProvider ''ext'' ''quiet''
       (exProvider givesNothing None None)
     (snd (registerInteractiveSessionProvider ''ext'' ''chat'' exBoth
     (snd (registerInteractiveSessionProvider ''ext'' ''broken''
       (exProvider failsToPrepare None None) init)))))"

definition exDto :: IInteractiveSessionDto where
  "exDto = \<lparr>id = 0, requesterUsername = Some ''user'', requesterAvatarIconUri = None,
     responderUsername = None, responderAvatarIconUri = None\<rparr>"

text \<open>One provider registered; a history of seven operations; a list of slash commands.\<close>

definition exRegistered :: "nat ExtHostInteractiveSession" where
  "exRegistered = snd (registerInteractiveSessionProvider ''ext'' ''chat'' exBoth init)"

definition exCalls :: "nat call list" where
  "exCalls = [Register ''ext'' ''chat'' exBoth, Prepare 0 0 False, Dispose 0,
     Register ''ext'' ''chat'' exNeither, Prepare 1 3 False, Release 0, Prepare 1 0 True]"

definition exSource :: "InteractiveSessionSlashCommand list" where
  "exSource = [\<lparr>command = ''fix'', kind = 2, detail = Some ''Fix it''\<rparr>,
     \<lparr>command = ''explain'', kind = 17, detail = None\<rparr>]"

definition exConverted :: "InteractiveSessionSlashCommand list" where
  "exConverted = [\<lparr>command = ''fix'', kind = 1, detail = Some ''Fix it''\<rparr>,
     \<lparr>command = ''explain'', kind = 16, detail = None\<rparr>]"

text \<open>The responses that the concrete replies below return.\<close>

definition exFailedResponse :: "nat IInteractiveResponseDto" where
  "exFailedResponse = \<lparr>IInteractiveResponseDto.followups = None, commandFollowups = None,
     IInteractiveResponseDto.errorDetails = Some
       \<lparr>InteractiveResponseErrorDetails.message = ''Error from provider: boom'',
        responseIsIncomplete = Some True\<rparr>,
     timings = \<lparr>firstProgress = 0, totalElapsed = 5\<rparr>\<rparr>"

definition exProgressiveResponse :: "nat IInteractiveResponseDto" where
  "exProgressiveResponse = \<lparr>IInteractiveResponseDto.followups = Some [''more''],
     commandFollowups = None, IInteractiveResponseDto.errorDetails = None,
     timings = \<lparr>firstProgress = 0, totalElapsed = 5\<rparr>\<rparr>"

definition exSyncResponse :: "nat IInteractiveResponseDto" where
  "exSyncResponse = \<lparr>IInteractiveResponseDto.followups = Some [''a'', ''b''],
     commandFollowups = None, IInteractiveResponseDto.errorDetails = None,
     timings = \<lparr>firstProgress = 0, totalElapsed = 0\<rparr>\<rparr>"

section \<open>Properties\<close>

subsection \<open>Basic facts\<close>

lemma emit_fields [simp]:
  "pool (emit e s) = pool s"
  "nextId (emit e s) = nextId s"
  "interactiveSessionProvider (emit e s) = interactiveSessionProvider s"
  "interactiveSessions (emit e s) = interactiveSessions s"
  "trace (emit e s) = trace s @ [e]"
  by (simp_all add: emit_def)

lemma started_fields:
  "prepareSession p 0 False = Inr (Some sess) \<Longrightarrow>
     pool (started p) = 1 \<and> nextId (started p) = 1 \<and>
     interactiveSessionProvider (started p) 0 = Some \<lparr>handle = 0, extension = ''ext'', provider = p\<rparr> \<and>
     interactiveSessions (started p) 0 = Some sess \<and>
     trace (started p) = [RegisterInteractiveSessionProvider 0 ''chat''
        (provideResponseWithProgress p \<noteq> None), Invoked 0 PrepareSession]"
  by (simp add: started_def prepareInteractiveSession_def registerInteractiveSessionProvider_def
      init_def Let_def)

lemma appendTrace_fields [simp]:
  "pool (appendTrace evs s) = pool s"
  "nextId (appendTrace evs s) = nextId s"
  "interactiveSessionProvider (appendTrace evs s) = interactiveSessionProvider s"
  "interactiveSessions (appendTrace evs s) = interactiveSessions s"
  "trace (appendTrace evs s) = trace s @ evs"
  by (simp_all add: appendTrace_def)

lemma emit_appendTrace: "emit e s = appendTrace [e] s"
  by (simp add: emit_def appendTrace_def)

lemma appendTrace_appendTrace [simp]: "appendTrace b (appendTrace a s) = appendTrace (a @ b) s"
  by (simp add: appendTrace_def)

lemma appendTrace_Nil [simp]: "appendTrace [] s = s"
  by (simp add: appendTrace_def)

lemma emitted_appendTrace [simp]: "emitted s (appendTrace evs s) = evs"
  by (simp add: emitted_def)

lemma saveSessionState_eq:
  "saveSessionState n sess s =
     (case saveError sess of
        Some err \<Rightarrow> Inl (err, appendTrace (saveEvents n sess) s)
      | None \<Rightarrow> Inr (appendTrace (saveEvents n sess) s))"
  by (simp add: saveSessionState_def saveError_def saveEvents_def emit_appendTrace Let_def
      split: option.split sum.split)

lemma report_step:
  "report h n w p (first, reads, s) =
     ((case first of None \<Rightarrow> Some (w reads) | Some x \<Rightarrow> Some x),
      (case first of None \<Rightarrow> Suc reads | Some x \<Rightarrow> reads),
      appendTrace [AcceptInteractiveResponseProgress h n (content p)] s)"
  by (simp add: report_def emit_appendTrace split: option.split)

lemma fold_report:
  "fold (report h n w) ps (first, reads, s) =
     ((case first of None \<Rightarrow> (if ps = [] then None else Some (w reads)) | Some x \<Rightarrow> Some x),
      (case first of None \<Rightarrow> (if ps = [] then reads else Suc reads) | Some x \<Rightarrow> reads),
      appendTrace (progressEvents h n ps) s)"
proof (induction ps arbitrary: first reads s)
  case Nil
  then show ?case by (simp add: progressEvents_def split: option.split)
next
  case (Cons p ps)
  show ?case
    by (cases first) (simp_all add: Cons.IH report_step progressEvents_def)
qed

lemma resultOrError_state:
  "snd (resultOrError gen s) =
     appendTrace (case thrownInCatch gen of Some e \<Rightarrow> []
       | None \<Rightarrow> (case settled gen of Inl err \<Rightarrow> [LogError err] | Inr _ \<Rightarrow> [])) s"
  by (simp add: resultOrError_def thrownInCatch_def emit_appendTrace split: sum.split option.split)

lemma resultOrError_result:
  "fst (resultOrError gen s) = fst (resultOrError gen s')"
  by (simp add: resultOrError_def split: sum.split option.split)

lemma resultOrError_thrown:
  "fst (resultOrError gen s) = Inl e \<longleftrightarrow> thrownInCatch gen = Some e"
  by (simp add: resultOrError_def thrownInCatch_def split: sum.split option.split)

lemma reply_progressive:
  assumes "interactiveSessionProvider s h = Some entry"
    and "interactiveSessions s n = Some realSession"
    and "provideResponse (provider entry) = None"
    and "provideResponseWithProgress (provider entry) = Some g"
    and "gen = g \<lparr>IInteractiveRequestDto.message = IInteractiveRequestDto.message r,
           session = realSession\<rparr> t"
  shows "provideInteractiveReply h n r t w s =
     (case fst (resultOrError gen s) of
        Inl e \<Rightarrow>
          (Inl e, appendTrace (Invoked h ProvideResponseWithProgress
             # progressEvents h n (reported gen)) s)
      | Inr result \<Rightarrow>
          (Inr (Some \<lparr>IInteractiveResponseDto.followups = InteractiveResponseForProgress.followups result,
              commandFollowups = commands result,
              IInteractiveResponseDto.errorDetails = InteractiveResponseForProgress.errorDetails result,
              timings = \<lparr>firstProgress = (if reported gen = [] then 0 else w 0),
                         totalElapsed = w (if reported gen = [] then 0 else 1)\<rparr>\<rparr>),
           appendTrace (Invoked h ProvideResponseWithProgress # progressEvents h n (reported gen)
             @ (case settled gen of Inl err \<Rightarrow> [LogError err] | Inr _ \<Rightarrow> [])
             @ saveEvents n realSession
             @ (case saveError realSession of Some err \<Rightarrow> [LogWarn err] | None \<Rightarrow> [])) s))"
proof -
  let ?s2 = "appendTrace (Invoked h ProvideResponseWithProgress # progressEvents h n (reported gen)) s"
  obtain out s3 where roe: "resultOrError gen ?s2 = (out, s3)"
    by (cases "resultOrError gen ?s2")
  have out: "out = fst (resultOrError gen s)"
    using roe resultOrError_result [of gen ?s2 s] by simp
  have s3: "s3 = appendTrace (case thrownInCatch gen of Some e \<Rightarrow> []
       | None \<Rightarrow> (case settled gen of Inl err \<Rightarrow> [LogError err] | Inr _ \<Rightarrow> [])) ?s2"
    using roe resultOrError_state [of gen ?s2] by simp
  show ?thesis
  proof (cases out)
    case (Inl e)
    then have "thrownInCatch gen = Some e" using out resultOrError_thrown [of gen s e] by simp
    with Inl s3 roe out [symmetric] assms(1-4) show ?thesis
      unfolding assms(5)
      by (simp add: provideInteractiveReply_def Let_def fold_report emit_appendTrace)
  next
    case (Inr result)
    then have "thrownInCatch gen = None"
      using out resultOrError_thrown [of gen s] by (cases "thrownInCatch gen") auto
    with Inr s3 roe out [symmetric] assms(1-4) show ?thesis
      unfolding assms(5)
      by (simp add: provideInteractiveReply_def Let_def fold_report emit_appendTrace
          saveSessionState_eq split: option.split)
  qed
qed

lemma reply_sync:
  assumes "interactiveSessionProvider s h = Some entry"
    and "interactiveSessions s n = Some realSession"
    and "provideResponse (provider entry) = Some f"
    and "out = f \<lparr>IInteractiveRequestDto.message = IInteractiveRequestDto.message r,
           session = realSession\<rparr> t"
  shows "provideInteractiveReply h n r t w s =
     (case out of
        Inl err \<Rightarrow> (Inl err, appendTrace [Invoked h ProvideResponse] s)
      | Inr res \<Rightarrow>
          (case saveError realSession of
             Some err \<Rightarrow> (Inl err, appendTrace (Invoked h ProvideResponse # saveEvents n realSession) s)
           | None \<Rightarrow>
               (case res of
                  None \<Rightarrow> (Inr None, appendTrace (Invoked h ProvideResponse # saveEvents n realSession) s)
                | Some x \<Rightarrow>
                    (Inr (Some \<lparr>IInteractiveResponseDto.followups = InteractiveResponse.followups x,
                        commandFollowups = None,
                        IInteractiveResponseDto.errorDetails = None,
                        timings = \<lparr>firstProgress = 0, totalElapsed = 0\<rparr>\<rparr>),
                     appendTrace (Invoked h ProvideResponse # saveEvents n realSession
                       @ [AcceptInteractiveResponseProgress h n (content x)]) s))))"
  using assms(1-3)
  unfolding assms(4)
  by (simp add: provideInteractiveReply_def Let_def emit_appendTrace saveSessionState_eq
      split: option.split sum.split)

lemma exGone_lookups:
  "interactiveSessionProvider exGone 0 = None" "interactiveSessions exGone 0 = None"
  by (simp_all add: exGone_def releaseSession_def dispose_def Let_def)

lemma started_exNeither:
  "interactiveSessionProvider (started exNeither) 0 =
     Some \<lparr>handle = 0, extension = ''ext'', provider = exNeither\<rparr>"
  "interactiveSessions (started exNeither) 0 = Some exSession"
  using started_fields [of exNeither exSession]
  by (simp_all add: exNeither_def exProvider_def gives_def)

subsection \<open>Unknown handles and unknown session ids\<close>

text \<open>
  A handle is not in the registry once its registration was disposed, and a session id
  is not in the store once it was released. That a handle or a session id never issued
  is in neither map is \<open>never_issued_not_found\<close> below.
\<close>

lemma disposed_not_found: "interactiveSessionProvider (dispose h s) h = None"
  by (simp add: dispose_def Let_def)

lemma released_not_found: "interactiveSessions (releaseSession n s) n = None"
  by (simp add: releaseSession_def)

text \<open>
  Claim C6. A handle that is not in the registry (never registered, or unregistered
  since) makes each of the five boundary operations return absent, and so does a session
  id that is not in the store (never created, or released since) for the three
  operations that take one. Nothing is raised, and the state, trace included, is the
  one before the call. The handle is looked up first, so an unknown session id gives
  absent whatever the handle is.
\<close>

theorem not_found_returns_absent:
  "(interactiveSessionProvider s h = None \<longrightarrow>
      prepareInteractiveSession h i t s = (Inr None, s) \<and>
      resolveInteractiveRequest h n c t s = (Inr None, s) \<and>
      provideInitialSuggestions_op h t s = (Inr None, s) \<and>
      provideInteractiveReply h n r t w s = (Inr None, s) \<and>
      provideSlashCommands_op k h n t s = (Inr None, s)) \<and>
   (interactiveSessions s n = None \<longrightarrow>
      resolveInteractiveRequest h n c t s = (Inr None, s) \<and>
      provideInteractiveReply h n r t w s = (Inr None, s) \<and>
      provideSlashCommands_op k h n t s = (Inr None, s))"
  by (simp add: prepareInteractiveSession_def resolveInteractiveRequest_def
      provideInitialSuggestions_op_def provideInteractiveReply_def provideSlashCommands_op_def
      split: option.split)

theorem not_found_returns_absent_witness:
  "interactiveSessionProvider exGone 0 = None \<and> interactiveSessions exGone 0 = None \<and>
   prepareInteractiveSession 0 3 False exGone = (Inr None, exGone) \<and>
   resolveInteractiveRequest 0 0 4 False exGone = (Inr None, exGone) \<and>
   provideInitialSuggestions_op 0 False exGone = (Inr None, exGone) \<and>
   provideInteractiveReply 0 0 exRequest False exStopWatch exGone = (Inr None, exGone) \<and>
   provideSlashCommands_op exKindFrom 0 0 False exGone = (Inr None, exGone)"
  using not_found_returns_absent [of exGone 0 3 False 0 4 exRequest exStopWatch exKindFrom]
    exGone_lookups by simp

subsection \<open>A provider with neither response capability\<close>

text \<open>
  Claim C3. When the handle and the session id both resolve and the provider has neither
  \<^verbatim>\<open>provideResponse\<close> nor \<^verbatim>\<open>provideResponseWithProgress\<close>, the reply raises the error
  "Provider must implement either provideResponse or provideResponseWithProgress". Every
  not-found outcome of the reply is the returned value absent, which is a different
  outcome.
\<close>

theorem neither_capability_raises:
  assumes "interactiveSessionProvider s h = Some entry"
    and "interactiveSessions s n = Some realSession"
    and "provideResponse (provider entry) = None"
    and "provideResponseWithProgress (provider entry) = None"
  shows "provideInteractiveReply h n r t w s =
           (Inl (Error ''Provider must implement either provideResponse or provideResponseWithProgress''), s)
         \<and> (\<forall>h' n' r' t' w' s'.
               interactiveSessionProvider s' h' = None \<or> interactiveSessions s' n' = None \<longrightarrow>
               fst (provideInteractiveReply h' n' r' t' w' s') = Inr None
               \<and> fst (provideInteractiveReply h' n' r' t' w' s')
                   \<noteq> fst (provideInteractiveReply h n r t w s))"
  using assms
  by (simp add: provideInteractiveReply_def split: option.split)

theorem neither_capability_raises_witness:
  "provideInteractiveReply 0 0 exRequest False exStopWatch (started exNeither) =
     (Inl (Error ''Provider must implement either provideResponse or provideResponseWithProgress''),
      started exNeither)
   \<and> fst (provideInteractiveReply 0 0 exRequest False exStopWatch exGone) = Inr None
   \<and> fst (provideInteractiveReply 0 0 exRequest False exStopWatch exGone)
       \<noteq> fst (provideInteractiveReply 0 0 exRequest False exStopWatch (started exNeither))"
proof -
  have p: "provideResponse (provider \<lparr>handle = 0, extension = ''ext'', provider = exNeither\<rparr>) = None"
    "provideResponseWithProgress (provider \<lparr>handle = 0, extension = ''ext'', provider = exNeither\<rparr>) = None"
    by (simp_all add: exNeither_def exProvider_def)
  from neither_capability_raises [OF started_exNeither p, of exRequest False exStopWatch]
  show ?thesis using exGone_lookups by blast
qed

subsection \<open>A preparation that fails\<close>

lemma prepare_failure_state:
  assumes "interactiveSessionProvider s h = Some entry"
    and "prepareSession (provider entry) i t = Inl err \<or> prepareSession (provider entry) i t = Inr None"
  shows "snd (prepareInteractiveSession h i t s) = emit (Invoked h PrepareSession) s"
  using assms by (auto simp: prepareInteractiveSession_def Let_def)

lemma prepare_ignores_trace:
  "fst (prepareInteractiveSession h i t (emit e s)) = fst (prepareInteractiveSession h i t s)"
  by (simp add: prepareInteractiveSession_def Let_def split: option.split sum.split)

lemma prepare_issues_nextId:
  "fst (prepareInteractiveSession h i t s) = Inr (Some dto) \<Longrightarrow> IInteractiveSessionDto.id dto = nextId s"
  by (auto simp: prepareInteractiveSession_def Let_def split: option.splits sum.splits)

text \<open>
  Claim C10. When the provider's \<^verbatim>\<open>prepareSession\<close> raises, the preparation raises the
  same error; when it yields no session, the preparation returns absent. In both cases
  the session store and the id counter are what they were, so a preparation that
  succeeds next is issued the id the counter had before the failed attempt, and its
  outcome is the one it would have had without that attempt.
\<close>

theorem failed_preparation_consumes_no_id:
  assumes "interactiveSessionProvider s h = Some entry"
    and "prepareSession (provider entry) i t = Inl err \<or> prepareSession (provider entry) i t = Inr None"
    and "s' = snd (prepareInteractiveSession h i t s)"
  shows "(prepareSession (provider entry) i t = Inl err \<longrightarrow>
            fst (prepareInteractiveSession h i t s) = Inl err)
         \<and> (prepareSession (provider entry) i t = Inr None \<longrightarrow>
            fst (prepareInteractiveSession h i t s) = Inr None)
         \<and> interactiveSessions s' = interactiveSessions s
         \<and> nextId s' = nextId s
         \<and> (\<forall>h2 i2 t2 dto. fst (prepareInteractiveSession h2 i2 t2 s') = Inr (Some dto) \<longrightarrow>
               IInteractiveSessionDto.id dto = nextId s
               \<and> fst (prepareInteractiveSession h2 i2 t2 s) = Inr (Some dto))"
proof -
  have st: "s' = emit (Invoked h PrepareSession) s"
    using prepare_failure_state [OF assms(1,2)] assms(3) by simp
  have out: "(prepareSession (provider entry) i t = Inl err \<longrightarrow>
            fst (prepareInteractiveSession h i t s) = Inl err)
         \<and> (prepareSession (provider entry) i t = Inr None \<longrightarrow>
            fst (prepareInteractiveSession h i t s) = Inr None)"
    using assms(1) by (simp add: prepareInteractiveSession_def Let_def)
  have nxt: "\<forall>h2 i2 t2 dto. fst (prepareInteractiveSession h2 i2 t2 s') = Inr (Some dto) \<longrightarrow>
               IInteractiveSessionDto.id dto = nextId s
               \<and> fst (prepareInteractiveSession h2 i2 t2 s) = Inr (Some dto)"
    using prepare_issues_nextId prepare_ignores_trace unfolding st by metis
  show ?thesis using out nxt by (simp add: st)
qed

lemma exThree_fields:
  "interactiveSessionProvider exThree 0 =
     Some \<lparr>handle = 0, extension = ''ext'', provider = exProvider failsToPrepare None None\<rparr>"
  "interactiveSessionProvider exThree 2 =
     Some \<lparr>handle = 2, extension = ''ext'', provider = exProvider givesNothing None None\<rparr>"
  "interactiveSessionProvider exThree (Suc 0) =
     Some \<lparr>handle = 1, extension = ''ext'', provider = exBoth\<rparr>"
  "nextId exThree = 0" "interactiveSessions exThree = Map.empty"
  by (simp_all add: exThree_def registerInteractiveSessionProvider_def init_def Let_def)

lemma exThree_after:
  "fst (prepareInteractiveSession 1 0 False (emit (Invoked h PrepareSession) exThree)) = Inr (Some exDto)"
  by (simp add: prepareInteractiveSession_def exThree_fields Let_def exBoth_def exProvider_def
      gives_def exSession_def exDto_def)

theorem failed_preparation_consumes_no_id_witness:
  "fst (prepareInteractiveSession 0 0 False exThree) = Inl (Error ''no session today'')
   \<and> fst (prepareInteractiveSession 2 0 False exThree) = Inr None
   \<and> interactiveSessions (snd (prepareInteractiveSession 0 0 False exThree)) = interactiveSessions exThree
   \<and> nextId (snd (prepareInteractiveSession 0 0 False exThree)) = nextId exThree
   \<and> interactiveSessions (snd (prepareInteractiveSession 2 0 False exThree)) = interactiveSessions exThree
   \<and> nextId (snd (prepareInteractiveSession 2 0 False exThree)) = nextId exThree
   \<and> fst (prepareInteractiveSession 1 0 False (snd (prepareInteractiveSession 0 0 False exThree)))
       = Inr (Some exDto)
   \<and> fst (prepareInteractiveSession 1 0 False (snd (prepareInteractiveSession 2 0 False exThree)))
       = Inr (Some exDto)
   \<and> IInteractiveSessionDto.id exDto = nextId exThree
   \<and> fst (prepareInteractiveSession 1 0 False exThree) = Inr (Some exDto)"
proof -
  have a: "prepareSession (provider \<lparr>handle = 0, extension = ''ext'',
             provider = exProvider failsToPrepare None None\<rparr>) 0 False = Inl (Error ''no session today'')"
    by (simp add: exProvider_def failsToPrepare_def)
  have b: "prepareSession (provider \<lparr>handle = 2, extension = ''ext'',
             provider = exProvider givesNothing None None\<rparr>) 0 False = Inr None"
    by (simp add: exProvider_def givesNothing_def)
  have sa: "snd (prepareInteractiveSession 0 0 False exThree) = emit (Invoked 0 PrepareSession) exThree"
    using prepare_failure_state [OF exThree_fields(1)] a by blast
  have sb: "snd (prepareInteractiveSession 2 0 False exThree) = emit (Invoked 2 PrepareSession) exThree"
    using prepare_failure_state [OF exThree_fields(2)] b by blast
  have ra: "fst (prepareInteractiveSession 1 0 False (snd (prepareInteractiveSession 0 0 False exThree)))
       = Inr (Some exDto)"
    unfolding sa by (rule exThree_after)
  have rb: "fst (prepareInteractiveSession 1 0 False (snd (prepareInteractiveSession 2 0 False exThree)))
       = Inr (Some exDto)"
    unfolding sb by (rule exThree_after)
  note A = failed_preparation_consumes_no_id [OF exThree_fields(1) disjI1 [OF a] refl]
  note B = failed_preparation_consumes_no_id [OF exThree_fields(2) disjI2 [OF b] refl]
  show ?thesis using A B a b ra rb by blast
qed

subsection \<open>Handles and session ids\<close>

lemma reply_state: "\<exists>evs. snd (provideInteractiveReply h n r t w s) = appendTrace evs s"
proof (cases "interactiveSessionProvider s h")
  case None
  then have "snd (provideInteractiveReply h n r t w s) = appendTrace [] s"
    by (simp add: provideInteractiveReply_def)
  then show ?thesis ..
next
  case (Some entry)
  note entry = this
  show ?thesis
  proof (cases "interactiveSessions s n")
    case None
    then have "snd (provideInteractiveReply h n r t w s) = appendTrace [] s"
      using entry by (simp add: provideInteractiveReply_def)
    then show ?thesis ..
  next
    case (Some realSession)
    note sess = this
    show ?thesis
    proof (cases "provideResponse (provider entry)")
      case (Some f)
      show ?thesis
        unfolding reply_sync [OF entry sess Some refl]
        by (auto split: sum.split option.split)
    next
      case None
      note nosync = this
      show ?thesis
      proof (cases "provideResponseWithProgress (provider entry)")
        case (Some g)
        show ?thesis
          unfolding reply_progressive [OF entry sess nosync Some refl]
          by (auto split: sum.split)
      next
        case None
        then have "snd (provideInteractiveReply h n r t w s) = appendTrace [] s"
          using entry sess nosync by (simp add: provideInteractiveReply_def)
        then show ?thesis ..
      qed
    qed
  qed
qed

lemma resolve_state: "\<exists>evs. snd (resolveInteractiveRequest h n c t s) = appendTrace evs s"
proof -
  have "snd (resolveInteractiveRequest h n c t s) = appendTrace [] s
      \<or> snd (resolveInteractiveRequest h n c t s) = appendTrace [Invoked h ResolveRequest] s"
    by (simp add: resolveInteractiveRequest_def emit_appendTrace Let_def
        split: option.split sum.split)
  then show ?thesis by blast
qed

lemma suggestions_state: "\<exists>evs. snd (provideInitialSuggestions_op h t s) = appendTrace evs s"
proof -
  have "snd (provideInitialSuggestions_op h t s) = appendTrace [] s
      \<or> snd (provideInitialSuggestions_op h t s) = appendTrace [Invoked h ProvideInitialSuggestions] s"
    by (simp add: provideInitialSuggestions_op_def emit_appendTrace Let_def
        split: option.split sum.split)
  then show ?thesis by blast
qed

lemma slash_state: "\<exists>evs. snd (provideSlashCommands_op k h n t s) = appendTrace evs s"
proof -
  have "snd (provideSlashCommands_op k h n t s) = appendTrace [] s
      \<or> snd (provideSlashCommands_op k h n t s) = appendTrace [Invoked h ProvideSlashCommands] s"
    by (simp add: provideSlashCommands_op_def emit_appendTrace Let_def
        split: option.split sum.split)
  then show ?thesis by blast
qed

lemma issuedBy_appendTrace: "issuedBy None s (appendTrace evs s)"
  by (simp add: issuedBy_def)

lemma prepare_issued:
  "prepareInteractiveSession h i t s = (r, s') \<Longrightarrow>
     issuedBy (case r of Inr (Some dto) \<Rightarrow> Some (IssuedSessionId (IInteractiveSessionDto.id dto)) | _ \<Rightarrow> None) s s'"
  by (auto simp: prepareInteractiveSession_def issuedBy_def Let_def
      split: option.splits sum.splits)

lemma perform_issued: "perform k c s = (i, s') \<Longrightarrow> issuedBy i s s'"
proof (cases c)
  case (Register ext ident p)
  assume "perform k c s = (i, s')"
  then show ?thesis using Register
    by (auto simp: registerInteractiveSessionProvider_def issuedBy_def Let_def)
next
  case (Dispose h)
  assume "perform k c s = (i, s')"
  then show ?thesis using Dispose by (auto simp: dispose_def issuedBy_def Let_def split: if_splits)
next
  case (AddRequest x)
  assume "perform k c s = (i, s')"
  then show ?thesis using AddRequest by (auto simp: addInteractiveSessionRequest_def issuedBy_def)
next
  case (Prepare h x t)
  assume p: "perform k c s = (i, s')"
  obtain r s1 where q: "prepareInteractiveSession h x t s = (r, s1)" by (cases "prepareInteractiveSession h x t s")
  from p Prepare q prepare_issued [OF q] show ?thesis
    by (auto split: sum.splits option.splits)
next
  case (ResolveReq h n x t)
  assume "perform k c s = (i, s')"
  then show ?thesis using ResolveReq resolve_state [of h n x t s] issuedBy_appendTrace by auto
next
  case (InitialSuggestions h t)
  assume "perform k c s = (i, s')"
  then show ?thesis using InitialSuggestions suggestions_state [of h t s] issuedBy_appendTrace by auto
next
  case (Reply h n r t w)
  assume "perform k c s = (i, s')"
  then show ?thesis using Reply reply_state [of h n r t w s] issuedBy_appendTrace by auto
next
  case (SlashCommands h n t)
  assume "perform k c s = (i, s')"
  then show ?thesis using SlashCommands slash_state [of k h n t s] issuedBy_appendTrace by auto
next
  case (Release n)
  assume "perform k c s = (i, s')"
  then show ?thesis using Release by (auto simp: releaseSession_def issuedBy_def split: if_splits)
qed

lemma performAll_issued:
  "performAll k cs s = (is, s') \<Longrightarrow>
     handlesOf is = [pool s..<pool s'] \<and> sessionIdsOf is = [nextId s..<nextId s']
     \<and> pool s \<le> pool s' \<and> nextId s \<le> nextId s'
     \<and> dom (interactiveSessionProvider s') \<subseteq> dom (interactiveSessionProvider s) \<union> set (handlesOf is)
     \<and> dom (interactiveSessions s') \<subseteq> dom (interactiveSessions s) \<union> set (sessionIdsOf is)"
proof (induction cs arbitrary: s "is" s')
  case Nil
  then show ?case by simp
next
  case (Cons c cs)
  obtain i s1 where p: "perform k c s = (i, s1)" by (cases "perform k c s")
  obtain js s2 where q: "performAll k cs s1 = (js, s2)" by (cases "performAll k cs s1")
  from Cons.prems p q have r: "s' = s2" "is = (case i of None \<Rightarrow> js | Some x \<Rightarrow> x # js)"
    by simp_all
  note ih = Cons.IH [OF q]
  note st = perform_issued [OF p]
  have lists: "handlesOf is = [pool s..<pool s'] \<and> sessionIdsOf is = [nextId s..<nextId s']
     \<and> pool s \<le> pool s' \<and> nextId s \<le> nextId s'"
  proof (cases i)
    case None
    with ih st r show ?thesis by (simp add: issuedBy_def)
  next
    case (Some x)
    with ih st r show ?thesis by (cases x) (simp_all add: issuedBy_def upt_conv_Cons)
  qed
  have d1: "dom (interactiveSessionProvider s1)
      \<subseteq> dom (interactiveSessionProvider s) \<union> set (handlesOf is)"
  proof (cases i)
    case None
    with st r show ?thesis by (auto simp: issuedBy_def)
  next
    case (Some x)
    with st r show ?thesis by (cases x) (auto simp: issuedBy_def)
  qed
  have d2: "dom (interactiveSessions s1) \<subseteq> dom (interactiveSessions s) \<union> set (sessionIdsOf is)"
  proof (cases i)
    case None
    with st r show ?thesis by (auto simp: issuedBy_def)
  next
    case (Some x)
    with st r show ?thesis by (cases x) (auto simp: issuedBy_def)
  qed
  have sub1: "set (handlesOf js) \<subseteq> set (handlesOf is)"
    using r(2) by (cases i) (auto split: issued.splits, (case_tac a; simp)+)
  have sub2: "set (sessionIdsOf js) \<subseteq> set (sessionIdsOf is)"
    using r(2) by (cases i) (auto split: issued.splits, (case_tac a; simp)+)
  have e1: "dom (interactiveSessionProvider s') \<subseteq> dom (interactiveSessionProvider s) \<union> set (handlesOf is)"
    using ih d1 sub1 unfolding r(1) by blast
  have e2: "dom (interactiveSessions s') \<subseteq> dom (interactiveSessions s) \<union> set (sessionIdsOf is)"
    using ih d2 sub2 unfolding r(1) by blast
  show ?case using lists e1 e2 by simp
qed

lemma never_issued_not_found:
  assumes "performAll k cs init = (is, s)"
  shows "(h \<notin> set (handlesOf is) \<longrightarrow> interactiveSessionProvider s h = None)
       \<and> (n \<notin> set (sessionIdsOf is) \<longrightarrow> interactiveSessions s n = None)"
  using performAll_issued [OF assms] by (auto simp: init_def)

text \<open>
  Claim C7. Started from the initial state, after any history of operations the handles
  issued so far are exactly 0, 1, ..., \<open>pool - 1\<close> in the order of issue, and the session
  ids issued so far are exactly 0, 1, ..., \<open>nextId - 1\<close> in the order of issue: each
  counter starts from zero, is strictly increasing and never gives a value twice. In
  particular, in any state, a preparation that succeeds, followed by any operations and
  by another preparation that succeeds (for the same provider or another), gives a
  second id strictly greater than the first.
\<close>

theorem identities_strictly_increasing:
  "(performAll k cs init = (is, s) \<longrightarrow>
      handlesOf is = [0..<pool s] \<and> sessionIdsOf is = [0..<nextId s]
      \<and> sorted_wrt (<) (handlesOf is) \<and> sorted_wrt (<) (sessionIdsOf is))
   \<and> (fst (prepareInteractiveSession h1 i1 t1 s0) = Inr (Some d1)
      \<and> performAll k cs' (snd (prepareInteractiveSession h1 i1 t1 s0)) = (is', s2)
      \<and> fst (prepareInteractiveSession h2 i2 t2 s2) = Inr (Some d2) \<longrightarrow> IInteractiveSessionDto.id d1 < IInteractiveSessionDto.id d2)"
proof (intro conjI impI)
  assume a: "performAll k cs init = (is, s)"
  from performAll_issued [OF a] show "handlesOf is = [0..<pool s]" by (simp add: init_def)
  from performAll_issued [OF a] show "sessionIdsOf is = [0..<nextId s]" by (simp add: init_def)
  from performAll_issued [OF a] show "sorted_wrt (<) (handlesOf is)" by simp
  from performAll_issued [OF a] show "sorted_wrt (<) (sessionIdsOf is)" by simp
next
  assume b: "fst (prepareInteractiveSession h1 i1 t1 s0) = Inr (Some d1)
      \<and> performAll k cs' (snd (prepareInteractiveSession h1 i1 t1 s0)) = (is', s2)
      \<and> fst (prepareInteractiveSession h2 i2 t2 s2) = Inr (Some d2)"
  obtain r s1 where p: "prepareInteractiveSession h1 i1 t1 s0 = (r, s1)"
    by (cases "prepareInteractiveSession h1 i1 t1 s0")
  from b p have r: "r = Inr (Some d1)" by simp
  from prepare_issued [OF p] r have 1: "IInteractiveSessionDto.id d1 = nextId s0" "nextId s1 = Suc (nextId s0)"
    by (simp_all add: issuedBy_def)
  from b p have "performAll k cs' s1 = (is', s2)" by simp
  from performAll_issued [OF this] have 2: "nextId s1 \<le> nextId s2" by simp
  obtain r2 s3 where p2: "prepareInteractiveSession h2 i2 t2 s2 = (r2, s3)"
    by (cases "prepareInteractiveSession h2 i2 t2 s2")
  from b p2 have r2: "r2 = Inr (Some d2)" by simp
  from prepare_issued [OF p2] r2 have 3: "IInteractiveSessionDto.id d2 = nextId s2" by (simp add: issuedBy_def)
  from 1 2 3 show "IInteractiveSessionDto.id d1 < IInteractiveSessionDto.id d2" by simp
qed

lemma exCalls_issued:
  "fst (performAll exKindFrom exCalls init) =
     [IssuedHandle 0, IssuedSessionId 0, IssuedHandle 1, IssuedSessionId 1, IssuedSessionId 2]"
  by (simp add: exCalls_def registerInteractiveSessionProvider_def prepareInteractiveSession_def
      dispose_def releaseSession_def init_def Let_def exBoth_def exNeither_def exProvider_def gives_def)

lemma exRegistered_prepare:
  "fst (prepareInteractiveSession 0 0 False exRegistered) = Inr (Some exDto)"
  "fst (prepareInteractiveSession 0 5 True
     (snd (performAll exKindFrom [Release 0] (snd (prepareInteractiveSession 0 0 False exRegistered)))))
     = Inr (Some (exDto\<lparr>id := 1\<rparr>))"
  by (simp_all add: exRegistered_def registerInteractiveSessionProvider_def prepareInteractiveSession_def
      releaseSession_def init_def Let_def exBoth_def exProvider_def gives_def exDto_def exSession_def)

theorem identities_strictly_increasing_witness:
  "handlesOf (fst (performAll exKindFrom exCalls init)) = [0, 1]
   \<and> handlesOf (fst (performAll exKindFrom exCalls init)) = [0..<pool (snd (performAll exKindFrom exCalls init))]
   \<and> sessionIdsOf (fst (performAll exKindFrom exCalls init)) = [0, 1, 2]
   \<and> sessionIdsOf (fst (performAll exKindFrom exCalls init)) = [0..<nextId (snd (performAll exKindFrom exCalls init))]
   \<and> fst (prepareInteractiveSession 0 0 False exRegistered) = Inr (Some exDto)
   \<and> fst (prepareInteractiveSession 0 5 True
        (snd (performAll exKindFrom [Release 0] (snd (prepareInteractiveSession 0 0 False exRegistered)))))
        = Inr (Some (exDto\<lparr>id := 1\<rparr>))
   \<and> IInteractiveSessionDto.id exDto < IInteractiveSessionDto.id (exDto\<lparr>id := 1\<rparr>)"
proof -
  have e: "performAll exKindFrom exCalls init =
      (fst (performAll exKindFrom exCalls init), snd (performAll exKindFrom exCalls init))"
    by simp
  have f: "performAll exKindFrom [Release 0] (snd (prepareInteractiveSession 0 0 False exRegistered)) =
      (fst (performAll exKindFrom [Release 0] (snd (prepareInteractiveSession 0 0 False exRegistered))),
       snd (performAll exKindFrom [Release 0] (snd (prepareInteractiveSession 0 0 False exRegistered))))"
    by simp
  note T = identities_strictly_increasing [of exKindFrom exCalls
      "fst (performAll exKindFrom exCalls init)" "snd (performAll exKindFrom exCalls init)"
      0 0 False exRegistered exDto "[Release 0]"
      "fst (performAll exKindFrom [Release 0] (snd (prepareInteractiveSession 0 0 False exRegistered)))"
      "snd (performAll exKindFrom [Release 0] (snd (prepareInteractiveSession 0 0 False exRegistered)))"
      0 5 True "exDto\<lparr>id := 1\<rparr>"]
  have h: "handlesOf (fst (performAll exKindFrom exCalls init)) = [0, 1]"
    and n: "sessionIdsOf (fst (performAll exKindFrom exCalls init)) = [0, 1, 2]"
    by (simp_all add: exCalls_issued)
  from T e f exRegistered_prepare h n show ?thesis by metis
qed

subsection \<open>Slash commands\<close>

text \<open>
  Claim C9. When the enumeration of slash commands returns a sequence, the provider and
  the session resolved, the provider has the capability and it returned a list of the
  same length; each returned descriptor has the command and the detail of the source
  descriptor at the same position, and its kind is the conversion applied to the
  source's kind.
\<close>

theorem slash_commands_preserve_fields:
  assumes "fst (provideSlashCommands_op k h n t s) = Inr (Some cs)"
  shows "\<exists>entry realSession f src.
           interactiveSessionProvider s h = Some entry \<and> interactiveSessions s n = Some realSession
           \<and> provideSlashCommands (provider entry) = Some f \<and> f realSession t = Inr (Some src)
           \<and> length cs = length src
           \<and> (\<forall>j<length src.
                 command (cs ! j) = command (src ! j) \<and> detail (cs ! j) = detail (src ! j)
                 \<and> kind (cs ! j) = k (kind (src ! j)))"
  using assms
  by (auto simp: provideSlashCommands_op_def convertSlashCommand_def Let_def
      split: option.splits sum.splits)

lemma started_exBoth:
  "interactiveSessionProvider (started exBoth) 0 =
     Some \<lparr>handle = 0, extension = ''ext'', provider = exBoth\<rparr>"
  "interactiveSessions (started exBoth) 0 = Some exSession"
  using started_fields [of exBoth exSession]
  by (simp_all add: exBoth_def exProvider_def gives_def)

lemma exSlash_source: "exSlash exSession False = Inr (Some exSource)"
  by (simp add: exSlash_def exSource_def)

lemma exBoth_slash: "provideSlashCommands exBoth = Some exSlash"
  by (simp add: exBoth_def exProvider_def)

lemma exBoth_converted:
  "fst (provideSlashCommands_op exKindFrom 0 0 False (started exBoth)) = Inr (Some exConverted)"
  by (simp add: provideSlashCommands_op_def started_exBoth exBoth_slash exSlash_source Let_def
      exSource_def exConverted_def convertSlashCommand_def exKindFrom_def)

theorem slash_commands_preserve_fields_witness:
  "fst (provideSlashCommands_op exKindFrom 0 0 False (started exBoth)) = Inr (Some exConverted)
   \<and> exSlash exSession False = Inr (Some exSource)
   \<and> length exConverted = length exSource
   \<and> command (exConverted ! 0) = command (exSource ! 0)
   \<and> detail (exConverted ! 0) = detail (exSource ! 0)
   \<and> kind (exConverted ! 0) = exKindFrom (kind (exSource ! 0))
   \<and> command (exConverted ! 1) = command (exSource ! 1)
   \<and> detail (exConverted ! 1) = detail (exSource ! 1)
   \<and> kind (exConverted ! 1) = exKindFrom (kind (exSource ! 1))"
proof -
  from slash_commands_preserve_fields [OF exBoth_converted]
  obtain entry realSession f src where
    e: "interactiveSessionProvider (started exBoth) 0 = Some entry"
    and r: "interactiveSessions (started exBoth) 0 = Some realSession"
    and f: "provideSlashCommands (provider entry) = Some f"
    and src: "f realSession False = Inr (Some src)"
    and len: "length exConverted = length src"
    and all: "\<forall>j<length src.
                 command (exConverted ! j) = command (src ! j) \<and> detail (exConverted ! j) = detail (src ! j)
                 \<and> kind (exConverted ! j) = exKindFrom (kind (src ! j))"
    by blast
  from e r f have "f = exSlash" "realSession = exSession"
    using exBoth_slash by (auto simp: started_exBoth)
  with src have s: "src = exSource" by (simp add: exSlash_source)
  have l: "length exSource = 2" by (simp add: exSource_def)
  from all s l have "command (exConverted ! 0) = command (exSource ! 0)
      \<and> detail (exConverted ! 0) = detail (exSource ! 0)
      \<and> kind (exConverted ! 0) = exKindFrom (kind (exSource ! 0))" by simp
  moreover from all s l have "command (exConverted ! 1) = command (exSource ! 1)
      \<and> detail (exConverted ! 1) = detail (exSource ! 1)
      \<and> kind (exConverted ! 1) = exKindFrom (kind (exSource ! 1))" by simp
  ultimately show ?thesis using exBoth_converted exSlash_source len s by simp
qed

subsection \<open>Concrete replies\<close>

lemma localize_errorResponse:
  "localize ''errorResponse'' ''Error from provider: {0}'' [Some m] = ''Error from provider: '' @ m"
  "localize ''errorResponse'' ''Error from provider: {0}'' [None] = ''Error from provider: undefined''"
  by (simp_all add: localize_def)

lemma localize_emptyResponse:
  "localize ''emptyResponse'' ''Provider returned null response'' [] = ''Provider returned null response''"
  by (simp add: localize_def)

lemma started_exProvider:
  "interactiveSessionProvider (started (exProvider (gives sess) a b)) 0 =
     Some \<lparr>handle = 0, extension = ''ext'', provider = exProvider (gives sess) a b\<rparr>"
  "interactiveSessions (started (exProvider (gives sess) a b)) 0 = Some sess"
  using started_fields [of "exProvider (gives sess) a b" sess]
  by (simp_all add: exProvider_def gives_def)

lemma exProvider_capabilities:
  "provideResponse (provider \<lparr>handle = 0, extension = ''ext'', provider = exProvider p a b\<rparr>) = a"
  "provideResponseWithProgress (provider \<lparr>handle = 0, extension = ''ext'', provider = exProvider p a b\<rparr>) = b"
  by (simp_all add: exProvider_def)

lemma ex_saveError:
  "saveError exSession = None" "saveError exFailingSession = Some (Error ''state is not serializable'')"
  "saveEvents n exSession = [InvokedSaveState n, AcceptInteractiveSessionState n 7]"
  "saveEvents n exFailingSession = [InvokedSaveState n]"
  by (simp_all add: saveError_def saveEvents_def exSession_def exFailingSession_def)

lemma exBoth_reply:
  "provideInteractiveReply 0 0 exRequest False exStopWatch (started exBoth) =
     (Inr (Some exSyncResponse),
      appendTrace [Invoked 0 ProvideResponse, InvokedSaveState 0, AcceptInteractiveSessionState 0 7,
        AcceptInteractiveResponseProgress 0 0 ''hello''] (started exBoth))"
  unfolding exBoth_def
  by (simp add: reply_sync [OF started_exProvider exProvider_capabilities(1) refl]
      exSync_def ex_saveError exSyncResponse_def)

lemma exSyncFailingSave_reply:
  "provideInteractiveReply 0 0 exRequest False exStopWatch (started exSyncFailingSave) =
     (Inl (Error ''state is not serializable''),
      appendTrace [Invoked 0 ProvideResponse, InvokedSaveState 0] (started exSyncFailingSave))"
  unfolding exSyncFailingSave_def
  by (simp add: reply_sync [OF started_exProvider exProvider_capabilities(1) refl]
      exSync_def ex_saveError)


lemma exProgressiveFailing_reply:
  "provideInteractiveReply 0 0 exRequest False exStopWatch (started exProgressiveFailing) =
     (Inr (Some exFailedResponse),
      appendTrace [Invoked 0 ProvideResponseWithProgress,
        AcceptInteractiveResponseProgress 0 0 ''hel'', LogError (Error ''boom''),
        InvokedSaveState 0, AcceptInteractiveSessionState 0 7] (started exProgressiveFailing))"
  unfolding exProgressiveFailing_def
  by (simp add: reply_progressive [OF started_exProvider exProvider_capabilities refl]
      exFailingProgressive_def ex_saveError exFailedResponse_def resultOrError_def progressEvents_def
      exStopWatch_def localize_errorResponse)

lemma exProgressiveRejecting_reply:
  "provideInteractiveReply 0 0 exRequest False exStopWatch (started exProgressiveRejecting) =
     (Inl (typeError ''undefined''),
      appendTrace [Invoked 0 ProvideResponseWithProgress,
        AcceptInteractiveResponseProgress 0 0 ''hel''] (started exProgressiveRejecting))"
  unfolding exProgressiveRejecting_def
  by (simp add: reply_progressive [OF started_exProvider exProvider_capabilities refl]
      exRejecting_def resultOrError_def progressEvents_def)

lemma exProgressiveFailingSave_reply:
  "provideInteractiveReply 0 0 exRequest False exStopWatch (started exProgressiveFailingSave) =
     (Inr (Some exProgressiveResponse),
      appendTrace [Invoked 0 ProvideResponseWithProgress,
        AcceptInteractiveResponseProgress 0 0 ''hel'', AcceptInteractiveResponseProgress 0 0 ''lo'',
        InvokedSaveState 0, LogWarn (Error ''state is not serializable'')]
        (started exProgressiveFailingSave))"
  unfolding exProgressiveFailingSave_def
  by (simp add: reply_progressive [OF started_exProvider exProvider_capabilities refl]
      exProgressive_def ex_saveError exProgressiveResponse_def resultOrError_def progressEvents_def
      exStopWatch_def)

lemma Invoked_notin_saveEvents [simp]: "Invoked h c \<notin> set (saveEvents n sess)"
  by (simp add: saveEvents_def split: option.split sum.split)

lemma Invoked_notin_progressEvents [simp]: "Invoked h c \<notin> set (progressEvents h' n ps)"
  by (auto simp: progressEvents_def)

lemma started_named:
  "interactiveSessionProvider (started exBoth) 0 =
     Some \<lparr>handle = 0, extension = ''ext'', provider = exBoth\<rparr>"
  "interactiveSessions (started exBoth) 0 = Some exSession"
  "interactiveSessionProvider (started exProgressiveOnly) 0 =
     Some \<lparr>handle = 0, extension = ''ext'', provider = exProgressiveOnly\<rparr>"
  "interactiveSessions (started exProgressiveOnly) 0 = Some exSession"
  "interactiveSessionProvider (started exProgressiveFailing) 0 =
     Some \<lparr>handle = 0, extension = ''ext'', provider = exProgressiveFailing\<rparr>"
  "interactiveSessions (started exProgressiveFailing) 0 = Some exSession"
  unfolding exBoth_def exProgressiveOnly_def exProgressiveFailing_def
  by (simp_all add: started_exProvider)

subsection \<open>Which response capability is called\<close>

text \<open>
  Claim C1 says that a provider with \<^verbatim>\<open>provideResponseWithProgress\<close> is always answered
  in progressive mode, also when it has \<^verbatim>\<open>provideResponse\<close> too. The provider \<open>exBoth\<close>
  has both capabilities, and its reply is the synchronous one: \<^verbatim>\<open>provideResponse\<close> is
  the only capability called, the content goes out as one increment and both timings are
  zero. The reply tests \<^verbatim>\<open>provideResponse\<close> first.
\<close>

theorem progressive_not_preferred_counterexample:
  "provideResponse exBoth = Some exSync
   \<and> provideResponseWithProgress exBoth = Some exProgressive
   \<and> fst (provideInteractiveReply 0 0 exRequest False exStopWatch (started exBoth)) =
       Inr (Some exSyncResponse)
   \<and> emitted (started exBoth)
        (snd (provideInteractiveReply 0 0 exRequest False exStopWatch (started exBoth))) =
       [Invoked 0 ProvideResponse, InvokedSaveState 0, AcceptInteractiveSessionState 0 7,
        AcceptInteractiveResponseProgress 0 0 ''hello'']"
  by (simp add: exBoth_reply) (simp add: exBoth_def exProvider_def)

text \<open>
  Claim C1, amended. For a reply whose provider and session resolve: when the provider
  has \<^verbatim>\<open>provideResponse\<close>, that capability is the one called, and no other, whether or
  not the provider has \<^verbatim>\<open>provideResponseWithProgress\<close> as well; the progressive
  capability is the one called, and no other, when the provider has it and has no
  \<^verbatim>\<open>provideResponse\<close>.
\<close>

theorem response_mode_selection:
  assumes "interactiveSessionProvider s h = Some entry"
    and "interactiveSessions s n = Some realSession"
    and "s' = snd (provideInteractiveReply h n r t w s)"
  shows "(provideResponse (provider entry) \<noteq> None \<longrightarrow>
            (\<forall>h' c. Invoked h' c \<in> set (emitted s s') \<longleftrightarrow> h' = h \<and> c = ProvideResponse))
       \<and> (provideResponse (provider entry) = None
            \<and> provideResponseWithProgress (provider entry) \<noteq> None \<longrightarrow>
            (\<forall>h' c. Invoked h' c \<in> set (emitted s s') \<longleftrightarrow> h' = h \<and> c = ProvideResponseWithProgress))"
proof (intro conjI impI)
  assume "provideResponse (provider entry) \<noteq> None"
  then obtain f where f: "provideResponse (provider entry) = Some f" by blast
  show "\<forall>h' c. Invoked h' c \<in> set (emitted s s') \<longleftrightarrow> h' = h \<and> c = ProvideResponse"
    unfolding assms(3) reply_sync [OF assms(1,2) f refl]
    by (auto split: sum.split option.split)
next
  assume a: "provideResponse (provider entry) = None
            \<and> provideResponseWithProgress (provider entry) \<noteq> None"
  then obtain g where g: "provideResponseWithProgress (provider entry) = Some g" by blast
  from a have no: "provideResponse (provider entry) = None" by simp
  show "\<forall>h' c. Invoked h' c \<in> set (emitted s s') \<longleftrightarrow> h' = h \<and> c = ProvideResponseWithProgress"
    unfolding assms(3) reply_progressive [OF assms(1,2) no g refl]
    by (auto split: sum.split option.split)
qed

theorem response_mode_selection_witness:
  "provideResponse exBoth \<noteq> None \<and> provideResponseWithProgress exBoth \<noteq> None
   \<and> Invoked 0 ProvideResponse \<in> set (emitted (started exBoth)
        (snd (provideInteractiveReply 0 0 exRequest False exStopWatch (started exBoth))))
   \<and> Invoked 0 ProvideResponseWithProgress \<notin> set (emitted (started exBoth)
        (snd (provideInteractiveReply 0 0 exRequest False exStopWatch (started exBoth))))
   \<and> provideResponse exProgressiveOnly = None \<and> provideResponseWithProgress exProgressiveOnly \<noteq> None
   \<and> Invoked 0 ProvideResponseWithProgress \<in> set (emitted (started exProgressiveOnly)
        (snd (provideInteractiveReply 0 0 exRequest False exStopWatch (started exProgressiveOnly))))
   \<and> Invoked 0 ProvideResponse \<notin> set (emitted (started exProgressiveOnly)
        (snd (provideInteractiveReply 0 0 exRequest False exStopWatch (started exProgressiveOnly))))"
proof -
  have b: "provideResponse exBoth \<noteq> None" "provideResponseWithProgress exBoth \<noteq> None"
    by (simp_all add: exBoth_def exProvider_def)
  have p: "provideResponse exProgressiveOnly = None" "provideResponseWithProgress exProgressiveOnly \<noteq> None"
    by (simp_all add: exProgressiveOnly_def exProvider_def)
  note B = response_mode_selection [OF started_named(1,2) refl, of exRequest False exStopWatch]
  note P = response_mode_selection [OF started_named(3,4) refl, of exRequest False exStopWatch]
  from B b have 1: "Invoked 0 ProvideResponse \<in> set (emitted (started exBoth)
        (snd (provideInteractiveReply 0 0 exRequest False exStopWatch (started exBoth))))"
    and 2: "Invoked 0 ProvideResponseWithProgress \<notin> set (emitted (started exBoth)
        (snd (provideInteractiveReply 0 0 exRequest False exStopWatch (started exBoth))))"
    by simp_all
  from P p have 3: "Invoked 0 ProvideResponseWithProgress \<in> set (emitted (started exProgressiveOnly)
        (snd (provideInteractiveReply 0 0 exRequest False exStopWatch (started exProgressiveOnly))))"
    and 4: "Invoked 0 ProvideResponse \<notin> set (emitted (started exProgressiveOnly)
        (snd (provideInteractiveReply 0 0 exRequest False exStopWatch (started exProgressiveOnly))))"
    by simp_all
  from b p 1 2 3 4 show ?thesis by blast
qed

subsection \<open>A progressive generation that fails\<close>

text \<open>
  In progressive mode, when \<^verbatim>\<open>provideResponseWithProgress\<close> throws a value whose
  message can be read, the reply does not raise: it returns a response without
  follow-ups whose error details have the message "Error from provider: " followed by
  the message of the thrown value (by "undefined" when it has none) and the flag
  \<^verbatim>\<open>responseIsIncomplete\<close> set to true, and the thrown value is logged as an error.
\<close>

lemma progressive_failure_with_readable_message:
  assumes "interactiveSessionProvider s h = Some entry"
    and "interactiveSessions s n = Some realSession"
    and "provideResponse (provider entry) = None"
    and "provideResponseWithProgress (provider entry) = Some g"
    and "settled (g \<lparr>IInteractiveRequestDto.message = IInteractiveRequestDto.message r,
           session = realSession\<rparr> t) = Inl err"
    and "message_of err = Inr m"
  shows "\<exists>first total.
           fst (provideInteractiveReply h n r t w s) =
             Inr (Some \<lparr>IInteractiveResponseDto.followups = None, commandFollowups = None,
               IInteractiveResponseDto.errorDetails = Some
                 \<lparr>InteractiveResponseErrorDetails.message = ''Error from provider: ''
                    @ (case m of Some text \<Rightarrow> text | None \<Rightarrow> ''undefined''),
                  responseIsIncomplete = Some True\<rparr>,
               timings = \<lparr>firstProgress = first, totalElapsed = total\<rparr>\<rparr>)
         \<and> LogError err \<in> set (emitted s (snd (provideInteractiveReply h n r t w s)))"
  unfolding reply_progressive [OF assms(1-4) refl]
  using assms(5,6) by (cases m) (simp_all add: resultOrError_def localize_errorResponse)

text \<open>
  When the thrown value is \<^verbatim>\<open>null\<close> or \<^verbatim>\<open>undefined\<close>, reading its message in the
  \<^verbatim>\<open>catch\<close> throws: the reply raises that exception after the increments were
  forwarded; nothing is logged and the state is not serialized.
\<close>

lemma progressive_failure_without_message_raises:
  assumes "interactiveSessionProvider s h = Some entry"
    and "interactiveSessions s n = Some realSession"
    and "provideResponse (provider entry) = None"
    and "provideResponseWithProgress (provider entry) = Some g"
    and "gen = g \<lparr>IInteractiveRequestDto.message = IInteractiveRequestDto.message r,
           session = realSession\<rparr> t"
    and "settled gen = Inl err"
    and "message_of err = Inl e"
  shows "provideInteractiveReply h n r t w s =
           (Inl e, appendTrace (Invoked h ProvideResponseWithProgress
              # progressEvents h n (reported gen)) s)"
  unfolding reply_progressive [OF assms(1-5)]
  using assms(6,7) by (simp add: resultOrError_def)

text \<open>
  Claim C4 says that whenever \<^verbatim>\<open>provideResponseWithProgress\<close> raises, the reply does
  not raise, logs the failure as an error and returns a response that carries the
  failure's message and the flag \<^verbatim>\<open>responseIsIncomplete\<close>. The provider
  \<open>exProgressiveRejecting\<close> emits one increment and then rejects with \<^verbatim>\<open>undefined\<close>; its
  session has a \<^verbatim>\<open>saveState\<close>. The reply raises the \<^verbatim>\<open>TypeError\<close> of reading the
  message: after the increment nothing is logged, the state is not serialized and no
  response is returned.
\<close>

theorem progressive_rejection_with_undefined_raises:
  "provideResponse exProgressiveRejecting = None
   \<and> provideResponseWithProgress exProgressiveRejecting = Some exRejecting
   \<and> settled (exRejecting \<lparr>IInteractiveRequestDto.message = IInteractiveRequestDto.message exRequest,
        session = exSession\<rparr> False) = Inl ThrownUndefined
   \<and> saveState exSession \<noteq> None
   \<and> provideInteractiveReply 0 0 exRequest False exStopWatch (started exProgressiveRejecting) =
       (Inl (typeError ''undefined''),
        appendTrace [Invoked 0 ProvideResponseWithProgress,
          AcceptInteractiveResponseProgress 0 0 ''hel''] (started exProgressiveRejecting))"
  by (simp add: exProgressiveRejecting_reply)
    (simp add: exProgressiveRejecting_def exProvider_def exRejecting_def exSession_def)

lemma first_progress_set_once:
  "fst (fold (report h n w) (p # ps) (None, 0, s)) = fst (report h n w p (None, 0, s))"
  by (simp add: report_step fold_report)

lemma isProgress_saveEvents [simp]: "filter isProgress (saveEvents n sess) = []"
  by (simp add: saveEvents_def split: option.split sum.split)

subsection \<open>The timing of the first increment\<close>




subsection \<open>A state serialization that fails\<close>

text \<open>
  Claim C2 says that in either mode a failure of \<^verbatim>\<open>saveState\<close> is logged as a warning
  and never replaces a response already produced nor reaches the caller. The progressive
  branch does that (\<open>progressive_saveState_failure_contained\<close>). The synchronous branch
  calls \<^verbatim>\<open>saveState\<close> outside any \<^verbatim>\<open>try\<close>: for the provider \<open>exSyncFailingSave\<close>, whose
  \<^verbatim>\<open>provideResponse\<close> has produced a result, the reply raises the error of
  \<^verbatim>\<open>saveState\<close> and logs no warning.
\<close>

theorem sync_saveState_failure_propagates:
  "exSync \<lparr>IInteractiveRequestDto.message = IInteractiveRequestDto.message exRequest,
      session = exFailingSession\<rparr> False =
     Inr (Some \<lparr>content = ''hello'', InteractiveResponse.followups = Some [''a'', ''b'']\<rparr>)
   \<and> fst (provideInteractiveReply 0 0 exRequest False exStopWatch (started exSyncFailingSave)) =
       Inl (Error ''state is not serializable'')
   \<and> LogWarn (Error ''state is not serializable'') \<notin> set (emitted (started exSyncFailingSave)
        (snd (provideInteractiveReply 0 0 exRequest False exStopWatch (started exSyncFailingSave))))"
  by (simp add: exSyncFailingSave_reply) (simp add: exSync_def)

lemma progressive_saveState_failure_contained:
  assumes "interactiveSessionProvider s h = Some entry"
    and "interactiveSessions s n = Some realSession"
    and "provideResponse (provider entry) = None"
    and "provideResponseWithProgress (provider entry) = Some g"
    and "saveState realSession = Some save" and "save () = Inl err"
    and "gen = g \<lparr>IInteractiveRequestDto.message = IInteractiveRequestDto.message r,
           session = realSession\<rparr> t"
    and "fst (resultOrError gen s) = Inr result"
  shows "fst (provideInteractiveReply h n r t w s) =
           Inr (Some \<lparr>IInteractiveResponseDto.followups = InteractiveResponseForProgress.followups result,
             commandFollowups = commands result,
             IInteractiveResponseDto.errorDetails = InteractiveResponseForProgress.errorDetails result,
             timings = \<lparr>firstProgress = (if reported gen = [] then 0 else w 0),
                        totalElapsed = w (if reported gen = [] then 0 else 1)\<rparr>\<rparr>)
         \<and> LogWarn err \<in> set (emitted s (snd (provideInteractiveReply h n r t w s)))"
  unfolding reply_progressive [OF assms(1-4) assms(7)]
  using assms(5,6,8) by (simp add: saveError_def)

lemma sync_saveState_failure_raises:
  assumes "interactiveSessionProvider s h = Some entry"
    and "interactiveSessions s n = Some realSession"
    and "provideResponse (provider entry) = Some f"
    and "f \<lparr>IInteractiveRequestDto.message = IInteractiveRequestDto.message r,
           session = realSession\<rparr> t = Inr res"
    and "saveState realSession = Some save" and "save () = Inl err"
  shows "fst (provideInteractiveReply h n r t w s) = Inl err
       \<and> emitted s (snd (provideInteractiveReply h n r t w s)) = [Invoked h ProvideResponse, InvokedSaveState n]"
  unfolding reply_sync [OF assms(1-3) refl]
  using assms(4-6) by (simp add: saveError_def saveEvents_def)

subsection \<open>The synchronous reply\<close>

text \<open>
  Claim C5 says that whenever \<^verbatim>\<open>provideResponse\<close> returns a result with the follow-ups
  a and b, the reply returns a response with these follow-ups and zero timings, after
  exactly one increment was forwarded. That holds when the session has no \<^verbatim>\<open>saveState\<close>
  or its \<^verbatim>\<open>saveState\<close> returns (\<open>sync_reply_when_state_saved\<close>). When \<^verbatim>\<open>saveState\<close>
  raises, as for the provider \<open>exSyncFailingSave\<close>, the reply raises instead: no response
  is returned and no increment is forwarded.
\<close>

theorem sync_reply_lost_when_saveState_fails:
  "provideResponse exSyncFailingSave = Some exSync
   \<and> exSync \<lparr>IInteractiveRequestDto.message = IInteractiveRequestDto.message exRequest,
      session = exFailingSession\<rparr> False =
     Inr (Some \<lparr>content = ''hello'', InteractiveResponse.followups = Some [''a'', ''b'']\<rparr>)
   \<and> provideInteractiveReply 0 0 exRequest False exStopWatch (started exSyncFailingSave) =
       (Inl (Error ''state is not serializable''),
        appendTrace [Invoked 0 ProvideResponse, InvokedSaveState 0] (started exSyncFailingSave))
   \<and> filter isProgress (emitted (started exSyncFailingSave)
        (snd (provideInteractiveReply 0 0 exRequest False exStopWatch (started exSyncFailingSave)))) = []"
  by (simp add: exSyncFailingSave_reply) (simp add: exSync_def exSyncFailingSave_def exProvider_def)

lemma sync_reply_when_state_saved:
  assumes "interactiveSessionProvider s h = Some entry"
    and "interactiveSessions s n = Some realSession"
    and "provideResponse (provider entry) = Some f"
    and "f \<lparr>IInteractiveRequestDto.message = IInteractiveRequestDto.message r,
           session = realSession\<rparr> t = Inr (Some res)"
    and "InteractiveResponse.followups res = Some [a, b]"
    and "saveError realSession = None"
  shows "fst (provideInteractiveReply h n r t w s) =
           Inr (Some \<lparr>IInteractiveResponseDto.followups = Some [a, b], commandFollowups = None,
             IInteractiveResponseDto.errorDetails = None,
             timings = \<lparr>firstProgress = 0, totalElapsed = 0\<rparr>\<rparr>)
       \<and> filter isProgress (emitted s (snd (provideInteractiveReply h n r t w s))) =
           [AcceptInteractiveResponseProgress h n (content res)]"
  unfolding reply_sync [OF assms(1-3) refl]
  using assms(4-6) by simp

end
